theory Spec2Isabelle
  imports Main "HOL-Library.AList"
begin

section \<open>JavaScript values\<close>

text \<open>
  The client is JavaScript, so every argument, object field and piece of component state
  is a dynamically typed value. Objects keep their fields in insertion order (an
  association list), arrays are lists. Numbers are modelled as integers, the values that
  \<open>String\<close> prints in plain decimal notation. A function value is a built-in function,
  given by its name; it is met only as a member that an object inherits.
\<close>

datatype jsval =
    JUndefined
  | JNull
  | JBool bool
  | JNum int
  | JStr string
  | JArr "jsval list"
  | JObj "(string \<times> jsval) list"
  | JFun string

type_synonym jsobj = "(string \<times> jsval) list"

text \<open>ToBoolean: what \<open>!!v\<close>, \<open>v || w\<close>, \<open>v && w\<close> and \<open>if (v)\<close> test.\<close>

fun truthy :: "jsval \<Rightarrow> bool" where
  "truthy JUndefined = False"
| "truthy JNull = False"
| "truthy (JBool b) = b"
| "truthy (JNum n) = (n \<noteq> 0)"
| "truthy (JStr s) = (s \<noteq> [])"
| "truthy (JArr xs) = True"
| "truthy (JObj kvs) = True"
| "truthy (JFun f) = True"

definition js_or :: "jsval \<Rightarrow> jsval \<Rightarrow> jsval" where
  \<comment> \<open>\<open>a || b\<close>\<close>
  "js_or a b = (if truthy a then a else b)"

definition js_and :: "jsval \<Rightarrow> jsval \<Rightarrow> jsval" where
  \<comment> \<open>\<open>a && b\<close>\<close>
  "js_and a b = (if truthy a then b else a)"

definition js_default :: "jsval \<Rightarrow> jsval \<Rightarrow> jsval" where
  \<comment> \<open>a default parameter \<open>(x = d)\<close>: the default applies when the argument is \<open>undefined\<close>\<close>
  "js_default d v = (if v = JUndefined then d else v)"

definition strict_eq :: "jsval \<Rightarrow> jsval \<Rightarrow> bool" where
  \<comment> \<open>\<open>a === b\<close> between values of different origin: primitives compare by value,
      objects, arrays and functions by identity, so they are never equal\<close>
  "strict_eq a b =
     (case a of JArr xs \<Rightarrow> False | JObj kvs \<Rightarrow> False | JFun f \<Rightarrow> False | _ \<Rightarrow> a = b)"

definition js_get :: "jsobj \<Rightarrow> string \<Rightarrow> jsval" where
  \<comment> \<open>\<open>obj.k\<close> on an object: a missing field reads as \<open>undefined\<close>\<close>
  "js_get obj k = (case map_of obj k of None \<Rightarrow> JUndefined | Some v \<Rightarrow> v)"

subsection \<open>String conversion\<close>

definition digit_char :: "nat \<Rightarrow> char" where
  "digit_char d = char_of (48 + d)"

function nat_digits :: "nat \<Rightarrow> string" where
  "nat_digits n = (if n < 10 then [digit_char n] else nat_digits (n div 10) @ [digit_char (n mod 10)])"
  by pat_completeness auto
termination
  by (relation "measure id") auto

declare nat_digits.simps [simp del]

definition int_digits :: "int \<Rightarrow> string" where
  "int_digits i = (if i < 0 then CHR ''-'' # nat_digits (nat (- i)) else nat_digits (nat i))"

fun join :: "string \<Rightarrow> string list \<Rightarrow> string" where
  \<comment> \<open>\<open>Array.prototype.join\<close> on an array of strings\<close>
  "join sep [] = []"
| "join sep [x] = x"
| "join sep (x # y # ys) = x @ sep @ join sep (y # ys)"

fun js_String :: "jsval \<Rightarrow> string" where
  "js_String JUndefined = ''undefined''"
| "js_String JNull = ''null''"
| "js_String (JBool b) = (if b then ''true'' else ''false'')"
| "js_String (JNum n) = int_digits n"
| "js_String (JStr s) = s"
| "js_String (JArr xs) =
     join '','' (map (\<lambda>x. if x = JUndefined \<or> x = JNull then [] else js_String x) xs)"
| "js_String (JObj kvs) = ''[object Object]''"
| "js_String (JFun f) = ''function '' @ f @ ''() { [native code] }''"

section \<open>The API client: sendQuery\<close>

text \<open>
  The transport (axios) is a parameter: posting a body to a path either fails with an
  error carrying \<open>response.data.detail\<close> and \<open>message\<close>, or returns the response data.
\<close>

record axios_error =
  detail :: jsval
  message :: jsval

type_synonym transport = "string \<Rightarrow> jsobj \<Rightarrow> axios_error + jsval"

text \<open>
  The object literal that \<open>sendQuery\<close> posts to \<open>/chat/query\<close>. An omitted argument is
  \<open>JUndefined\<close>. This is the variant of the API client with the \<open>mode\<close> parameter.
\<close>

definition sendQuery_body ::
  "jsval \<Rightarrow> jsval \<Rightarrow> jsval \<Rightarrow> jsval \<Rightarrow> jsval \<Rightarrow> jsval \<Rightarrow> jsval \<Rightarrow> jsobj" where
  "sendQuery_body question usePredefined queryKey previousSqlQuery followupAnswers skipFollowups mode =
     [(''question'', question),
      (''query_key'', js_default JNull queryKey),
      (''use_predefined'', js_default (JBool True) usePredefined),
      (''previous_sql_query'', js_or (js_default JNull previousSqlQuery) JNull),
      (''followup_answers'', js_or (js_default JNull followupAnswers) JNull),
      (''skip_followups'', JBool (truthy (js_default (JBool False) skipFollowups))),
      (''mode'', js_default (JStr ''report'') mode)]"

definition thrown_message :: "string \<Rightarrow> axios_error \<Rightarrow> jsval" where
  \<comment> \<open>\<open>error.response?.data?.detail || error.message || fallback\<close>\<close>
  "thrown_message fallback e = js_or (js_or (detail e) (message e)) (JStr fallback)"

definition sendQuery ::
  "transport \<Rightarrow> jsval \<Rightarrow> jsval \<Rightarrow> jsval \<Rightarrow> jsval \<Rightarrow> jsval \<Rightarrow> jsval \<Rightarrow> jsval \<Rightarrow> jsval + jsval" where
  \<comment> \<open>\<open>Inl m\<close>: throws \<open>new Error(m)\<close>; \<open>Inr d\<close>: returns \<open>response.data\<close>\<close>
  "sendQuery post question usePredefined queryKey previousSqlQuery followupAnswers skipFollowups mode =
     (case post ''/chat/query''
             (sendQuery_body question usePredefined queryKey previousSqlQuery followupAnswers
                skipFollowups mode) of
        Inl e \<Rightarrow> Inl (thrown_message ''Failed to send query'' e)
      | Inr d \<Rightarrow> Inr d)"

text \<open>
  The other variant of the API client under the same name: six parameters, no \<open>mode\<close>.
\<close>

definition sendQuery_body6 ::
  "jsval \<Rightarrow> jsval \<Rightarrow> jsval \<Rightarrow> jsval \<Rightarrow> jsval \<Rightarrow> jsval \<Rightarrow> jsobj" where
  "sendQuery_body6 question usePredefined queryKey previousSqlQuery followupAnswers skipFollowups =
     [(''question'', question),
      (''query_key'', js_default JNull queryKey),
      (''use_predefined'', js_default (JBool True) usePredefined),
      (''previous_sql_query'', js_or (js_default JNull previousSqlQuery) JNull),
      (''followup_answers'', js_or (js_default JNull followupAnswers) JNull),
      (''skip_followups'', JBool (truthy (js_default (JBool False) skipFollowups)))]"

definition sendQuery6 ::
  "transport \<Rightarrow> jsval \<Rightarrow> jsval \<Rightarrow> jsval \<Rightarrow> jsval \<Rightarrow> jsval \<Rightarrow> jsval \<Rightarrow> jsval + jsval" where
  "sendQuery6 post question usePredefined queryKey previousSqlQuery followupAnswers skipFollowups =
     (case post ''/chat/query''
             (sendQuery_body6 question usePredefined queryKey previousSqlQuery followupAnswers
                skipFollowups) of
        Inl e \<Rightarrow> Inl (thrown_message ''Failed to send query'' e)
      | Inr d \<Rightarrow> Inr d)"

section \<open>The FollowUpQuestions component\<close>

text \<open>
  Component state: \<open>answers\<close> and \<open>errors\<close>, two plain objects keyed by question id.
  Every value stored in them is a string (\<open>e.target.value\<close> of an input, or the fixed
  error text), so their own fields are association lists of strings. A lookup
  \<open>obj[k]\<close> reads an own field and otherwise the member of that name inherited from
  \<open>Object.prototype\<close>: a built-in function, or the prototype object itself for
  \<open>__proto__\<close>. An assignment \<open>obj[k] = v\<close> of a string sets an own field, except for
  \<open>__proto__\<close>, where the inherited setter ignores a value that is not an object. A
  question is an object as the backend sent it. A property key is the string
  conversion of the value used as key.
\<close>

type_synonym strobj = "(string \<times> string) list"

definition inherited :: "string \<Rightarrow> jsval option" where
  \<comment> \<open>the members of \<open>Object.prototype\<close>\<close>
  "inherited k =
     (if k = ''constructor'' then Some (JFun ''Object'')
      else if k \<in> set [''toString'', ''toLocaleString'', ''valueOf'', ''hasOwnProperty'',
                        ''isPrototypeOf'', ''propertyIsEnumerable'', ''__defineGetter__'',
                        ''__defineSetter__'', ''__lookupGetter__'', ''__lookupSetter__'']
      then Some (JFun k)
      else if k = ''__proto__'' then Some (JObj [])
      else None)"

definition str_get :: "strobj \<Rightarrow> string \<Rightarrow> jsval" where
  \<comment> \<open>\<open>answers[k]\<close>, \<open>errors[k]\<close>\<close>
  "str_get obj k =
     (case map_of obj k of
        Some s \<Rightarrow> JStr s
      | None \<Rightarrow> (case inherited k of Some v \<Rightarrow> v | None \<Rightarrow> JUndefined))"

definition str_set :: "string \<Rightarrow> string \<Rightarrow> strobj \<Rightarrow> strobj" where
  \<comment> \<open>\<open>obj[k] = v\<close>\<close>
  "str_set k v obj = (if k = ''__proto__'' then obj else AList.update k v obj)"

definition qkey :: "jsobj \<Rightarrow> string" where
  \<comment> \<open>the property key \<open>[question.id]\<close>\<close>
  "qkey q = js_String (js_get q ''id'')"

definition handleAnswerChange :: "string \<Rightarrow> string \<Rightarrow> strobj \<times> strobj \<Rightarrow> strobj \<times> strobj" where
  \<comment> \<open>state is \<open>(answers, errors)\<close>\<close>
  "handleAnswerChange questionId v st =
     (case st of (answers, errors) \<Rightarrow>
        (AList.update questionId v answers,
         if truthy (str_get errors questionId) then AList.delete questionId errors else errors))"

datatype confirm_effect =
    SetErrors strobj    \<comment> \<open>\<open>setErrors(newErrors); return\<close>\<close>
  | OnConfirm strobj    \<comment> \<open>\<open>onConfirm(answers)\<close>\<close>

definition missing_questions :: "jsobj list \<Rightarrow> strobj \<Rightarrow> jsobj list" where
  \<comment> \<open>\<open>questions.filter(q => q.required && !answers[q.id])\<close>\<close>
  "missing_questions questions answers =
     filter (\<lambda>q. truthy (js_and (js_get q ''required'') (JBool (\<not> truthy (str_get answers (qkey q))))))
       questions"

definition handleConfirm :: "jsobj list \<Rightarrow> strobj \<Rightarrow> confirm_effect" where
  "handleConfirm questions answers =
     (let missing = missing_questions questions answers in
      if length missing > 0
      then SetErrors (fold (\<lambda>q newErrors. str_set (qkey q) ''This question is required'' newErrors)
                        missing [])
      else OnConfirm answers)"

subsection \<open>Rendering\<close>

text \<open>
  The rendered element tree. An attribute is a value or an event handler; a JSX child
  expression \<open>{e}\<close> is \<open>Text e\<close>, an array of children is \<open>Frag\<close>. \<open>{a && <X/>}\<close> is
  \<open>X\<close> when \<open>a\<close> is truthy and the value \<open>a\<close> itself otherwise. Rendering is \<open>None\<close> when
  the JavaScript throws a TypeError (calling \<open>.map\<close> on an \<open>options\<close> value that has none).
  The decorative glyphs in front of fixed labels are left out.
\<close>

datatype handler =
    AnswerChange string    \<comment> \<open>\<open>(e) => handleAnswerChange(key, e.target.value)\<close>\<close>
  | ConfirmClick
  | CancelClick

datatype attr = AVal jsval | AHandler handler

datatype vnode =
    Elem string "(string \<times> attr) list" "vnode list"
  | Text jsval
  | Frag "vnode list"

definition jsx_and :: "jsval \<Rightarrow> vnode \<Rightarrow> vnode" where
  "jsx_and a x = (if truthy a then x else Text a)"

definition option_radio :: "jsobj \<Rightarrow> jsval \<Rightarrow> nat \<times> jsval \<Rightarrow> vnode" where
  \<comment> \<open>the callback of \<open>question.options?.map((option, idx) => ...)\<close>\<close>
  "option_radio question v p =
     (case p of (idx, opt) \<Rightarrow>
        Elem ''label'' [(''key'', AVal (JNum (int idx))), (''className'', AVal (JStr ''followup-option''))]
          [Elem ''input''
             [(''type'', AVal (JStr ''radio'')),
              (''name'', AVal (js_get question ''id'')),
              (''value'', AVal opt),
              (''checked'', AVal (JBool (strict_eq v opt))),
              (''onChange'', AHandler (AnswerChange (qkey question)))] [],
           Elem ''span'' [] [Text opt]])"

definition confirmation_radio :: "jsobj \<Rightarrow> jsval \<Rightarrow> string \<Rightarrow> string \<Rightarrow> vnode" where
  "confirmation_radio question v val label =
     Elem ''label'' [(''className'', AVal (JStr ''followup-option''))]
       [Elem ''input''
          [(''type'', AVal (JStr ''radio'')),
           (''name'', AVal (js_get question ''id'')),
           (''value'', AVal (JStr val)),
           (''checked'', AVal (JBool (v = JStr val))),
           (''onChange'', AHandler (AnswerChange (qkey question)))] [],
        Elem ''span'' [] [Text (JStr label)]]"

definition renderQuestionInput :: "strobj \<Rightarrow> jsobj \<Rightarrow> vnode option" where
  "renderQuestionInput answers question =
     (let v = js_or (str_get answers (qkey question)) (JStr [])
      in if js_get question ''type'' = JStr ''date_selection'' then
           (case js_get question ''options'' of
              JUndefined \<Rightarrow>
                Some (Elem ''div'' [(''className'', AVal (JStr ''followup-options''))]
                        [Text JUndefined, Text JUndefined])
            | JNull \<Rightarrow>
                Some (Elem ''div'' [(''className'', AVal (JStr ''followup-options''))]
                        [Text JUndefined, Text JUndefined])
            | JArr opts \<Rightarrow>
                Some (Elem ''div'' [(''className'', AVal (JStr ''followup-options''))]
                        [Frag (map (option_radio question v) (enumerate 0 opts)),
                         jsx_and (js_and (JBool (JStr ''Custom Date'' \<in> set opts))
                                         (JBool (v = JStr ''Custom Date'')))
                           (Elem ''input''
                              [(''type'', AVal (JStr ''date'')),
                               (''className'', AVal (JStr ''followup-custom-date'')),
                               (''value'', AVal (js_or (str_get answers (qkey question @ ''_date'')) (JStr []))),
                               (''onChange'', AHandler (AnswerChange (qkey question @ ''_date'')))] [])])
            | _ \<Rightarrow> None)
         else if js_get question ''type'' = JStr ''confirmation'' then
           Some (Elem ''div'' [(''className'', AVal (JStr ''followup-options''))]
                   [confirmation_radio question v ''yes'' ''Yes, Confirm'',
                    confirmation_radio question v ''no'' ''No, Cancel''])
         else if js_get question ''type'' = JStr ''text'' then
           Some (Elem ''textarea''
                   [(''className'', AVal (JStr ''followup-text-input'')),
                    (''value'', AVal v),
                    (''onChange'', AHandler (AnswerChange (qkey question))),
                    (''placeholder'', AVal (JStr ''Enter your answer...'')),
                    (''rows'', AVal (JNum 3))] [])
         else
           Some (Elem ''input''
                   [(''type'', AVal (JStr ''text'')),
                    (''className'', AVal (JStr ''followup-text-input'')),
                    (''value'', AVal v),
                    (''onChange'', AHandler (AnswerChange (qkey question))),
                    (''placeholder'', AVal (JStr ''Enter your answer...''))] []))"

definition renderQuestion :: "strobj \<Rightarrow> strobj \<Rightarrow> nat \<times> jsobj \<Rightarrow> vnode option" where
  \<comment> \<open>the callback of \<open>questions.map((question, idx) => ...)\<close>\<close>
  "renderQuestion answers errors p =
     (case p of (idx, question) \<Rightarrow>
        (case renderQuestionInput answers question of
           None \<Rightarrow> None
         | Some inp \<Rightarrow>
             Some (Elem ''div''
                     [(''key'', AVal (js_or (js_get question ''id'') (JNum (int idx)))),
                      (''className'',
                         AVal (JStr (''followup-question '' @
                                 (if truthy (str_get errors (qkey question)) then ''error'' else []))))]
                     [Elem ''div'' [(''className'', AVal (JStr ''followup-question-label''))]
                        [Elem ''span'' [(''className'', AVal (JStr ''followup-number''))]
                           [Text (JNum (int idx + 1))],
                         Elem ''span'' [(''className'', AVal (JStr ''followup-question-text''))]
                           [Text (js_get question ''question'')],
                         jsx_and (js_get question ''required'')
                           (Elem ''span'' [(''className'', AVal (JStr ''followup-required''))]
                              [Text (JStr ''*'')])],
                      jsx_and (js_get question ''estimated_mb'')
                        (Elem ''div'' [(''className'', AVal (JStr ''followup-estimates''))]
                           [Elem ''span'' [(''className'', AVal (JStr ''estimate-badge''))]
                              [Text (JStr ''Estimated: ''), Text (js_get question ''estimated_mb''),
                               Text (JStr '' MB'')],
                            jsx_and (js_get question ''estimated_seconds'')
                              (Elem ''span'' [(''className'', AVal (JStr ''estimate-badge''))]
                                 [Text (JStr ''Runtime: ~''), Text (js_get question ''estimated_seconds''),
                                  Text (JStr '' seconds'')])]),
                      inp,
                      jsx_and (str_get errors (qkey question))
                        (Elem ''div'' [(''className'', AVal (JStr ''followup-error''))]
                           [Text (str_get errors (qkey question))])])))"

fun sequence :: "'a option list \<Rightarrow> 'a list option" where
  \<comment> \<open>a \<open>.map\<close> whose callback may throw: the first throw aborts the whole map\<close>
  "sequence [] = Some []"
| "sequence (None # xs) = None"
| "sequence (Some x # xs) = (case sequence xs of None \<Rightarrow> None | Some ys \<Rightarrow> Some (x # ys))"

definition FollowUpQuestions :: "jsobj list \<Rightarrow> jsval \<Rightarrow> jsval \<Rightarrow> strobj \<Rightarrow> strobj \<Rightarrow> vnode option" where
  "FollowUpQuestions questions analysis sqlQuery answers errors =
     (case sequence (map (renderQuestion answers errors) (enumerate 0 questions)) of
        None \<Rightarrow> None
      | Some items \<Rightarrow>
          Some (Elem ''div'' [(''className'', AVal (JStr ''followup-container''))]
                  [Elem ''div'' [(''className'', AVal (JStr ''followup-header''))]
                     [Elem ''h3'' [] [Text (JStr ''Query Clarification Needed'')],
                      jsx_and analysis
                        (Elem ''p'' [(''className'', AVal (JStr ''followup-analysis''))] [Text analysis])],
                   Elem ''div'' [(''className'', AVal (JStr ''followup-questions''))] [Frag items],
                   jsx_and sqlQuery
                     (Elem ''details'' [(''className'', AVal (JStr ''followup-sql-preview''))]
                        [Elem ''summary'' [] [Text (JStr ''Preview Generated SQL Query'')],
                         Elem ''pre'' [(''className'', AVal (JStr ''sql-preview''))] [Text sqlQuery]]),
                   Elem ''div'' [(''className'', AVal (JStr ''followup-actions''))]
                     [Elem ''button''
                        [(''className'', AVal (JStr ''followup-cancel'')), (''onClick'', AHandler CancelClick)]
                        [Text (JStr ''Cancel'')],
                      Elem ''button''
                        [(''className'', AVal (JStr ''followup-confirm'')), (''onClick'', AHandler ConfirmClick)]
                        [Text (JStr ''Confirm & Execute'')]]]))"

section \<open>The ChatInterface component\<close>

text \<open>
  Component state. A message is an object; \<open>lastSqlQuery\<close> starts as \<open>null\<close>. One run of a
  handler is modelled from its call to the state after its \<open>finally\<close> block; the two
  timers that only reword \<open>loadingStatus\<close> while the request is pending are cleared
  there and are left out. Every message object is created once and stands at one
  position of \<open>messages\<close>, so a message object handed to a handler is given by its
  index; an index beyond the end is an object that is not in the array.
\<close>

record chat_state =
  messages :: "jsobj list"
  input :: string
  loading :: bool
  loadingStatus :: string
  lastSqlQuery :: jsval

definition is_space :: "char \<Rightarrow> bool" where
  "is_space c = (c \<in> set [CHR '' '', CHR 0x09, CHR 0x0A, CHR 0x0B, CHR 0x0C, CHR 0x0D])"

definition js_trim :: "string \<Rightarrow> string" where
  "js_trim s = rev (dropWhile is_space (rev (dropWhile is_space s)))"

definition isArray :: "jsval \<Rightarrow> bool" where
  "isArray v = (case v of JArr xs \<Rightarrow> True | _ \<Rightarrow> False)"

definition type_error_text :: "jsval \<Rightarrow> string \<Rightarrow> string" where
  \<comment> \<open>the engine's message for reading property \<open>k\<close> of \<open>null\<close> or \<open>undefined\<close>\<close>
  "type_error_text v k =
     ''Cannot read properties of '' @ js_String v @ '' (reading '' @ [CHR 0x27] @ k @ [CHR 0x27] @ '')''"

definition errorMessage :: "string \<Rightarrow> jsobj" where
  "errorMessage msg =
     [(''type'', JStr ''bot''), (''content'', JStr (''Error: '' @ msg)), (''success'', JBool False)]"

definition botMessage :: "jsobj \<Rightarrow> jsobj" where
  \<comment> \<open>built from a response that is an object\<close>
  "botMessage response =
     [(''type'', JStr ''bot''),
      (''content'', js_get response ''answer''),
      (''sqlQuery'', js_get response ''sql_query''),
      (''data'', js_or (js_get response ''data'') (JArr [])),
      (''rowCount'', js_or (js_get response ''row_count'') (JNum 0)),
      (''isPredefined'', js_get response ''is_predefined''),
      (''success'', js_get response ''success''),
      (''isConversational'', js_or (js_get response ''is_conversational'') (JBool False)),
      (''agentUsed'', js_or (js_get response ''agent_used'') JNull),
      (''routeReason'', js_or (js_get response ''route_reason'') JNull)]"

definition followupMessage :: "jsobj \<Rightarrow> jsobj" where
  "followupMessage response =
     [(''type'', JStr ''followup''),
      (''content'', js_get response ''answer''),
      (''success'', JBool True),
      (''sqlQuery'', js_get response ''sql_query''),
      (''followupQuestions'', js_get response ''followup_questions''),
      (''followupAnalysis'', js_or (js_get response ''followup_analysis'') (JStr [])),
      (''agentUsed'', js_or (js_get response ''agent_used'') (JStr ''followup'')),
      (''routeReason'', js_or (js_get response ''route_reason'') JNull)]"

definition finally_state :: "chat_state \<Rightarrow> chat_state" where
  "finally_state st = st\<lparr>loading := False, loadingStatus := ''Processing your query...''\<rparr>"

definition handleSend_body :: "chat_state \<Rightarrow> jsval \<Rightarrow> jsval \<Rightarrow> jsobj" where
  \<comment> \<open>the body of \<open>sendQuery(query, true, queryKey, lastSqlQuery)\<close>\<close>
  "handleSend_body st question queryKey =
     sendQuery_body (js_or (js_default JNull question) (JStr (js_trim (input st)))) (JBool True)
       (js_default JNull queryKey) (lastSqlQuery st) JUndefined JUndefined JUndefined"

definition handleSend :: "transport \<Rightarrow> chat_state \<Rightarrow> jsval \<Rightarrow> jsval \<Rightarrow> chat_state" where
  "handleSend post st question queryKey =
     (let query = js_or (js_default JNull question) (JStr (js_trim (input st))) in
      if \<not> truthy query then st
      else
        let st1 = st\<lparr>messages := messages st @ [[(''type'', JStr ''user''), (''content'', query)]],
                     input := []\<rparr>
        in finally_state
          (case sendQuery post query (JBool True) (js_default JNull queryKey) (lastSqlQuery st)
                  JUndefined JUndefined JUndefined of
             Inl m \<Rightarrow> st1\<lparr>messages := messages st1 @ [errorMessage (js_String m)]\<rparr>
           | Inr response \<Rightarrow>
               (case response of
                  JObj r \<Rightarrow>
                    if truthy (js_get r ''needs_followup'') \<and> isArray (js_get r ''followup_questions'')
                    then st1\<lparr>messages := messages st1 @ [followupMessage r]\<rparr>
                    else
                      let st2 = st1\<lparr>messages := messages st1 @ [botMessage r]\<rparr>
                      in if truthy (js_get r ''sql_query'') \<and> \<not> truthy (js_get r ''is_conversational'')
                         then st2\<lparr>lastSqlQuery := js_get r ''sql_query''\<rparr>
                         else st2
                | JUndefined \<Rightarrow>
                    st1\<lparr>messages := messages st1 @ [errorMessage (type_error_text response ''answer'')]\<rparr>
                | JNull \<Rightarrow>
                    st1\<lparr>messages := messages st1 @ [errorMessage (type_error_text response ''answer'')]\<rparr>
                | _ \<Rightarrow> st1\<lparr>messages := messages st1 @ [botMessage []]\<rparr>)))"

definition findIndex :: "'a list \<Rightarrow> nat \<Rightarrow> int" where
  \<comment> \<open>\<open>xs.findIndex(m => m === obj)\<close> for the object at index \<open>i\<close>; \<open>-1\<close> when it is
      not in the array\<close>
  "findIndex xs i = (if i < length xs then int i else -1)"

definition slice0 :: "'a list \<Rightarrow> int \<Rightarrow> 'a list" where
  \<comment> \<open>\<open>xs.slice(0, e)\<close>: a negative end counts from the end of the array\<close>
  "slice0 xs e = (if e < 0 then take (nat (int (length xs) + e)) xs else take (nat e) xs)"

definition followup_question :: "jsobj list \<Rightarrow> nat \<Rightarrow> jsval" where
  \<comment> \<open>the user question just before the follow-up message, or the empty string\<close>
  "followup_question msgs i =
     js_or (case find (\<lambda>m. js_get m ''type'' = JStr ''user'')
                   (rev (slice0 msgs (findIndex msgs i))) of
              None \<Rightarrow> JUndefined
            | Some m \<Rightarrow> js_get m ''content'')
           (JStr [])"

definition strobj_val :: "strobj \<Rightarrow> jsval" where
  "strobj_val obj = JObj (map (\<lambda>(k, v). (k, JStr v)) obj)"

definition handleFollowupConfirm_body :: "chat_state \<Rightarrow> nat \<Rightarrow> strobj \<Rightarrow> jsobj" where
  \<comment> \<open>the body of \<open>sendQuery(<question>, true, null, lastSqlQuery, answers, true)\<close>\<close>
  "handleFollowupConfirm_body st i answers =
     sendQuery_body (followup_question (messages st) i) (JBool True) JNull (lastSqlQuery st)
       (strobj_val answers) (JBool True) JUndefined"

definition handleFollowupConfirm :: "transport \<Rightarrow> chat_state \<Rightarrow> nat \<Rightarrow> strobj \<Rightarrow> chat_state" where
  "handleFollowupConfirm post st i answers =
     finally_state
       (case sendQuery post (followup_question (messages st) i) (JBool True) JNull (lastSqlQuery st)
               (strobj_val answers) (JBool True) JUndefined of
          Inl m \<Rightarrow> st\<lparr>messages := messages st @ [errorMessage (js_String m)]\<rparr>
        | Inr response \<Rightarrow>
            (case response of
               JObj r \<Rightarrow>
                 let st2 = st\<lparr>messages := (messages st)[i := botMessage r]\<rparr>
                 in if truthy (js_get r ''success'') \<and> truthy (js_get r ''sql_query'')
                         \<and> \<not> truthy (js_get r ''is_conversational'')
                    then st2\<lparr>lastSqlQuery := js_get r ''sql_query''\<rparr>
                    else st2
             | JUndefined \<Rightarrow>
                 st\<lparr>messages := messages st @ [errorMessage (type_error_text response ''answer'')]\<rparr>
             | JNull \<Rightarrow>
                 st\<lparr>messages := messages st @ [errorMessage (type_error_text response ''answer'')]\<rparr>
             | _ \<Rightarrow> st\<lparr>messages := (messages st)[i := botMessage []]\<rparr>))"

definition handleFollowupCancel :: "chat_state \<Rightarrow> nat \<Rightarrow> chat_state" where
  "handleFollowupCancel st i =
     st\<lparr>messages :=
          (messages st)
            [i := [(''type'', JStr ''bot''), (''content'', JStr ''Cancelled. No query was executed.''),
                   (''success'', JBool True), (''isConversational'', JBool True),
                   (''agentUsed'', JStr ''followup'')]]\<rparr>"

subsection \<open>Report download as CSV\<close>

text \<open>
  \<open>message.data\<close> is the array of row objects of a result set. \<open>Object.keys\<close> lists the
  fields of the first row in insertion order (column names are not array indices).
\<close>

definition includes_char :: "string \<Rightarrow> char \<Rightarrow> bool" where
  \<comment> \<open>\<open>s.includes(c)\<close> for a one-character string\<close>
  "includes_char s c = (c \<in> set s)"

fun replace_quotes :: "string \<Rightarrow> string" where
  \<comment> \<open>\<open>s.replace(/"/g, '""')\<close>\<close>
  "replace_quotes [] = []"
| "replace_quotes (c # cs) =
     (if c = CHR 0x22 then CHR 0x22 # CHR 0x22 # replace_quotes cs else c # replace_quotes cs)"

definition csv_field :: "jsobj \<Rightarrow> string \<Rightarrow> string" where
  \<comment> \<open>the callback of \<open>headers.map(header => ...)\<close>\<close>
  "csv_field row header =
     (let v = js_get row header in
      if v = JNull \<or> v = JUndefined then []
      else
        let stringValue = js_String v in
        if includes_char stringValue CHR '','' \<or> includes_char stringValue (CHR 0x22)
             \<or> includes_char stringValue (CHR 0x0A)
        then [CHR 0x22] @ replace_quotes stringValue @ [CHR 0x22]
        else stringValue)"

definition csvContent :: "jsobj list \<Rightarrow> string" where
  "csvContent data =
     (let headers = map fst (hd data) in
      join [CHR 0x0A]
        (join '','' headers # map (\<lambda>row. join '','' (map (csv_field row) headers)) data))"

definition handleDownloadReport :: "jsobj list \<Rightarrow> string option" where
  \<comment> \<open>\<open>None\<close>: returns at once, nothing is downloaded; \<open>Some csv\<close>: the text of the
      downloaded file\<close>
  "handleDownloadReport data = (if length data = 0 then None else Some (csvContent data))"

section \<open>The query-routing pipeline\<close>

text \<open>
  The pipeline runs in the backend service, whose code is not part of the sources at
  hand: only its caller (the client above) is. Its components are modelled from the
  specification, each definition saying so. The collaborators that the specification
  leaves open (retrieval, the language-model agents, the data store, the scoring policy
  of saved-query matching, identifier resolution) are parameters.
\<close>

subsection \<open>Characters and words of SQL text\<close>

text \<open>
  Modelled from the spec: what "case-insensitive", "lower-cased", "punctuation-stripped"
  and "whole token" mean on the characters of a question or a statement. A word
  character is an ASCII letter, a digit or an underscore; the quote is the single quote
  that delimits SQL string literals.
\<close>

definition is_lower :: "char \<Rightarrow> bool" where
  "is_lower c = (97 \<le> (of_char c :: nat) \<and> (of_char c :: nat) \<le> 122)"

definition is_upper :: "char \<Rightarrow> bool" where
  "is_upper c = (65 \<le> (of_char c :: nat) \<and> (of_char c :: nat) \<le> 90)"

definition is_digit :: "char \<Rightarrow> bool" where
  "is_digit c = (48 \<le> (of_char c :: nat) \<and> (of_char c :: nat) \<le> 57)"

definition is_word_char :: "char \<Rightarrow> bool" where
  "is_word_char c = (is_lower c \<or> is_upper c \<or> is_digit c \<or> c = CHR ''_'')"

definition to_upper :: "char \<Rightarrow> char" where
  "to_upper c = (if is_lower c then char_of ((of_char c :: nat) - 32) else c)"

definition to_lower :: "char \<Rightarrow> char" where
  "to_lower c = (if is_upper c then char_of ((of_char c :: nat) + 32) else c)"

definition quote :: char where
  "quote = CHR 0x27"

definition flush :: "string \<Rightarrow> string list" where
  "flush cur = (if cur = [] then [] else [cur])"

text \<open>
  Modelled from the spec: where a string literal is. The lexical mode of a position in
  SQL text: in code (\<open>Dash\<close> and \<open>Slash\<close> are code just after a \<open>-\<close> or a \<open>/\<close> that may
  open a comment), inside a single-quoted string literal, inside a double-quoted or a
  bracketed identifier, inside a line comment, or inside a block comment (\<open>Star\<close> is a
  block comment just after a \<open>*\<close> that may close it). A quote opens a literal only in
  code; a doubled quote inside a literal closes and reopens it.
\<close>

datatype lex = Code | Dash | Slash | Lit | Ident | Bracket | Line | Block | Star

fun next_lex :: "lex \<Rightarrow> char \<Rightarrow> lex" where
  "next_lex Lit c = (if c = quote then Code else Lit)"
| "next_lex Ident c = (if c = CHR 0x22 then Code else Ident)"
| "next_lex Bracket c = (if c = CHR '']'' then Code else Bracket)"
| "next_lex Line c = (if c = CHR 0x0A then Code else Line)"
| "next_lex Block c = (if c = CHR ''*'' then Star else Block)"
| "next_lex Star c = (if c = CHR ''/'' then Code else if c = CHR ''*'' then Star else Block)"
| "next_lex m c =
     (if c = quote then Lit
      else if c = CHR 0x22 then Ident
      else if c = CHR ''['' then Bracket
      else if c = CHR ''-'' then (if m = Dash then Line else Dash)
      else if c = CHR ''*'' then (if m = Slash then Block else Code)
      else if c = CHR ''/'' then Slash
      else Code)"


text \<open>
  Modelled from the spec: the tokens of a statement "outside of string literals"
  (Safety Gate, check (b)). The scanner carries the lexical mode and the word read so
  far; a token is a maximal run of letters, digits and underscores anywhere but inside
  a string literal, so the words of comments and of quoted identifiers are tokens too.
\<close>

fun scan :: "lex \<Rightarrow> string \<Rightarrow> string \<Rightarrow> string list" where
  "scan m cur [] = flush cur"
| "scan m cur (c # cs) =
     (if m \<noteq> Lit \<and> is_word_char c then scan (next_lex m c) (cur @ [c]) cs
      else flush cur @ scan (next_lex m c) [] cs)"

definition sql_tokens :: "string \<Rightarrow> string list" where
  "sql_tokens sql = scan Code [] sql"

subsection \<open>Safety Gate\<close>

text \<open>
  Modelled from the spec: the failure taxonomy (section 7), the validation status of a
  SQL Candidate (section 3), the configured deny-list and the checks (a) and (b) of the
  Safety Gate (section 4.4). Keywords are compared in upper case.
\<close>

datatype failure_kind =
    RetrievalError | GenerationError | SafetyViolation | SchemaMismatch | SemanticMismatch
  | ExecutionError | RepairExhausted

datatype validation = Unchecked | Valid | Rejected failure_kind

definition deny_list :: "string list" where
  "deny_list = [''INSERT'', ''UPDATE'', ''DELETE'', ''DROP'', ''ALTER'', ''TRUNCATE'', ''EXEC'',
                ''MERGE'', ''GRANT'', ''REVOKE'']"

definition has_denied_keyword :: "string \<Rightarrow> bool" where
  "has_denied_keyword sql = list_ex (\<lambda>t. map to_upper t \<in> set deny_list) (sql_tokens sql)"

definition in_code :: "lex \<Rightarrow> bool" where
  "in_code m = (m = Code \<or> m = Dash \<or> m = Slash)"

fun statements :: "lex \<Rightarrow> string \<Rightarrow> string \<Rightarrow> string list" where
  \<comment> \<open>the text between semicolons that stand in code\<close>
  "statements m cur [] = [cur]"
| "statements m cur (c # cs) =
     (if c = CHR '';'' \<and> in_code m then cur # statements Code [] cs
      else statements (next_lex m c) (cur @ [c]) cs)"

definition single_select :: "string \<Rightarrow> bool" where
  \<comment> \<open>check (a): exactly one statement, and its leading keyword is SELECT in any case\<close>
  "single_select sql =
     (case filter (\<lambda>s. \<not> list_all is_space s) (statements Code [] sql) of
        [s] \<Rightarrow> map to_upper (takeWhile is_word_char (dropWhile is_space s)) = ''SELECT''
      | _ \<Rightarrow> False)"

text \<open>
  Modelled from the spec: the Safety Gate (section 4.4), a pure function over the text of
  a SQL Candidate whose checks run in order and stop at the first failure. How
  identifiers resolve against the schema snapshot (c) and against the retrieved context
  (d) is given by the two parameters.
\<close>

definition safety_gate :: "(string \<Rightarrow> bool) \<Rightarrow> (string \<Rightarrow> bool) \<Rightarrow> string \<Rightarrow> validation" where
  "safety_gate resolves grounded sql =
     (if \<not> single_select sql then Rejected SafetyViolation
      else if has_denied_keyword sql then Rejected SafetyViolation
      else if \<not> resolves sql then Rejected SchemaMismatch
      else if \<not> grounded sql then Rejected SemanticMismatch
      else Valid)"

subsection \<open>Saved-query matching\<close>

text \<open>
  Modelled from the spec: the Saved Query Record (section 3) and the normalisation of
  text before matching (section 4.1).
\<close>

record saved_query =
  key :: string
  triggers :: "string list"
  canonical :: string
  sql :: string
  description :: string

definition normalise :: "string \<Rightarrow> string" where
  \<comment> \<open>lower-cased, punctuation-stripped\<close>
  "normalise s = filter (\<lambda>c. is_word_char c \<or> c = CHR '' '') (map to_lower s)"

fun split_words :: "string \<Rightarrow> string \<Rightarrow> string list" where
  "split_words cur [] = flush cur"
| "split_words cur (c # cs) =
     (if c = CHR '' '' then flush cur @ split_words [] cs else split_words (cur @ [c]) cs)"

text \<open>
  Modelled from the spec: a keyword-overlap score, the number of distinct trigger
  keywords of a record that occur as words of the normalised question. The
  specification leaves the scoring policy open, so the matcher below takes the score
  and the least score that counts as a hit as parameters; this one is an instance.
\<close>

definition keyword_overlap :: "saved_query \<Rightarrow> string \<Rightarrow> nat" where
  "keyword_overlap r q =
     length (filter (\<lambda>k. k \<in> set (split_words [] (normalise q)))
               (remdups (concat (map (\<lambda>t. split_words [] (normalise t)) (triggers r)))))"

fun best :: "('a \<Rightarrow> nat) \<Rightarrow> 'a option \<Rightarrow> 'a list \<Rightarrow> 'a option" where
  \<comment> \<open>one pass over the catalog in insertion order; a later record replaces the best so
      far only with a strictly higher score\<close>
  "best f cur [] = cur"
| "best f cur (r # rs) =
     best f (case cur of None \<Rightarrow> Some r | Some b \<Rightarrow> if f b < f r then Some r else Some b) rs"

text \<open>
  Modelled from the spec: saved-query matching (section 4.1). A supplied \<open>query_key\<close>
  bypasses scoring and selects the record with that key; otherwise the record with the
  highest score wins if it reaches the least score, ties going to the earlier record.
\<close>

definition match_saved ::
  "(saved_query \<Rightarrow> string \<Rightarrow> nat) \<Rightarrow> nat \<Rightarrow> saved_query list \<Rightarrow> string \<Rightarrow> string option
     \<Rightarrow> saved_query option" where
  "match_saved score_of least cat q qk =
     (case qk of
        Some k \<Rightarrow> find (\<lambda>r. key r = k) cat
      | None \<Rightarrow>
          (case best (\<lambda>r. score_of r q) None cat of
             None \<Rightarrow> None
           | Some r \<Rightarrow> if least \<le> score_of r q then Some r else None))"

subsection \<open>Orchestrator\<close>

text \<open>
  Modelled from the spec: the data model (section 3). A \<open>request\<close> is the Question, one
  inbound request; then the SQL Candidate, the items of a Clarification Request, the
  Pipeline Result, and the states of the Orchestrator (section 4.1).
\<close>

datatype run_mode = Conversation | Report

record request =
  question :: string
  caller :: string
  mode :: run_mode
  previous_sql_query :: "string option"
  query_key :: "string option"
  followup_answers :: "(string \<times> string) list option"
  skip_followups :: bool

datatype agent = Generation | Repair | Saved

record sql_candidate =
  sql_text :: string
  produced_by :: agent
  status :: validation

type_synonym row = "(string \<times> string) list"
type_synonym schema_fact = string

datatype clarification_type = T_date_selection | T_confirmation | T_text

record clarification_item =
  item_id :: string
  item_question :: string
  item_type :: clarification_type
  item_options :: "string list option"
  item_required :: bool
  item_estimated_cost :: "string option"

datatype pipeline_result =
    Conversational string
  | SavedQueryResult string "row list"
  | GeneratedResult string "row list" agent
  | NeedsClarification "clarification_item list" string
  | Failure failure_kind string


fun is_NeedsClarification :: "pipeline_result \<Rightarrow> bool" where
  "is_NeedsClarification (NeedsClarification qs why) = True"
| "is_NeedsClarification r = False"

datatype orch_state =
    START | MATCH_SAVED | EXECUTE_SAVED | MODE_CHECK | CONVERSATIONAL | RETRIEVE | GENERATE
  | CLARIFY_CHECK | ASK_CLARIFY | SAFETY_GATE | EXECUTE | REPAIR | DONE

text \<open>
  Modelled from the spec: the collaborators of one run (sections 2 and 9), supplied as
  functions. The catalog, the scoring policy and the schema snapshot are read-only data.
  A collaborator that is a call out of the core (the responder, the knowledge store, the
  agents, the data store) takes the state \<open>'w\<close> of the world outside and returns it
  changed, so that a stub can count or remember its invocations and answer differently
  each time; the Orchestrator hands the state from one call to the next and can neither
  read nor change it. \<open>retrieve\<close> answers \<open>None\<close> on RetrievalError, \<open>generate\<close> on
  GenerationError, \<open>repair\<close> when the Repair Agent cannot produce a candidate;
  \<open>execute\<close> answers \<open>Inl\<close> on an ExecutionError; \<open>clarify\<close> answers the clarification
  questions (none when the question is not ambiguous) and the rationale.
\<close>

record 'w collaborators =
  catalog :: "saved_query list"
  score_of :: "saved_query \<Rightarrow> string \<Rightarrow> nat"
  least_score :: nat
  resolves :: "string \<Rightarrow> bool"
  grounded :: "schema_fact list \<Rightarrow> string \<Rightarrow> bool"
  respond :: "request \<Rightarrow> 'w \<Rightarrow> string \<times> 'w"
  retrieve :: "string \<Rightarrow> 'w \<Rightarrow> schema_fact list option \<times> 'w"
  generate :: "request \<Rightarrow> schema_fact list \<Rightarrow> 'w \<Rightarrow> string option \<times> 'w"
  clarify :: "request \<Rightarrow> schema_fact list \<Rightarrow> 'w \<Rightarrow> (clarification_item list \<times> string) \<times> 'w"
  execute :: "string \<Rightarrow> 'w \<Rightarrow> (string + row list) \<times> 'w"
  repair :: "request \<Rightarrow> schema_fact list \<Rightarrow> string \<Rightarrow> failure_kind \<Rightarrow> 'w \<Rightarrow> string option \<times> 'w"

text \<open>
  Modelled from the spec: what a run leaves behind, namely the Pipeline Result, the
  states it went through in order, the SQL Candidates it produced with their final
  validation status, and the state of the world after its last call.
\<close>

record 'w outcome =
  result :: pipeline_result
  trace :: "orch_state list"
  candidates :: "sql_candidate list"
  world :: 'w

definition sql_states :: "orch_state set" where
  "sql_states = {MATCH_SAVED, EXECUTE_SAVED, RETRIEVE, GENERATE, CLARIFY_CHECK, ASK_CLARIFY,
                 SAFETY_GATE, EXECUTE, REPAIR}"

definition user_failure :: string where
  \<comment> \<open>the short message of a terminal failure; it carries neither the reason nor any SQL\<close>
  "user_failure = ''The request could not be completed.''"

definition gate :: "'w collaborators \<Rightarrow> schema_fact list \<Rightarrow> string \<Rightarrow> validation" where
  "gate env facts s = safety_gate (resolves env) (grounded env facts) s"

text \<open>
  Modelled from the spec: the single repair round (sections 4.1, 4.5, 4.8). It starts in
  \<open>REPAIR\<close> with the failed candidate and the reason, and ends the run: the corrected
  candidate goes through the Safety Gate and is executed once; nothing leads back to
  \<open>REPAIR\<close>. \<open>pre\<close> is the trace so far, \<open>first\<close> the original candidate.
\<close>

definition repair_round ::
  "'w collaborators \<Rightarrow> request \<Rightarrow> schema_fact list \<Rightarrow> orch_state list \<Rightarrow> sql_candidate
     \<Rightarrow> failure_kind \<Rightarrow> 'w \<Rightarrow> 'w outcome" where
  "repair_round env req facts pre first reason w =
     (case repair env req facts (sql_text first) reason w of
        (None, w1) \<Rightarrow>
          \<lparr>result = Failure RepairExhausted user_failure, trace = pre @ [REPAIR, DONE],
           candidates = [first], world = w1\<rparr>
      | (Some s2, w1) \<Rightarrow>
          (case gate env facts s2 of
             Valid \<Rightarrow>
               (case execute env s2 w1 of
                  (Inl e, w2) \<Rightarrow>
                    \<lparr>result = Failure ExecutionError user_failure,
                     trace = pre @ [REPAIR, SAFETY_GATE, EXECUTE, DONE],
                     candidates = [first, \<lparr>sql_text = s2, produced_by = Repair, status = Valid\<rparr>],
                     world = w2\<rparr>
                | (Inr rows, w2) \<Rightarrow>
                    \<lparr>result = GeneratedResult s2 rows Repair,
                     trace = pre @ [REPAIR, SAFETY_GATE, EXECUTE, DONE],
                     candidates = [first, \<lparr>sql_text = s2, produced_by = Repair, status = Valid\<rparr>],
                     world = w2\<rparr>)
           | v \<Rightarrow>
               \<lparr>result = Failure RepairExhausted user_failure,
                trace = pre @ [REPAIR, SAFETY_GATE, DONE],
                candidates = [first, \<lparr>sql_text = s2, produced_by = Repair, status = v\<rparr>],
                world = w1\<rparr>))"

text \<open>
  Modelled from the spec: the generation path from \<open>RETRIEVE\<close> on (section 4.1). The
  Clarification Agent is consulted in \<open>CLARIFY_CHECK\<close>; the run stops with
  NeedsClarification when it has questions, no \<open>followup_answers\<close> were supplied and
  \<open>skip_followups\<close> is false, and its questions are discarded otherwise (sections 3
  and 4.6). The Safety Gate never answers \<open>Unchecked\<close>; that branch only completes the
  case distinction.
\<close>

definition generation_path ::
  "'w collaborators \<Rightarrow> request \<Rightarrow> orch_state list \<Rightarrow> 'w \<Rightarrow> 'w outcome" where
  "generation_path env req pre w =
     (case retrieve env (question req) w of
        (None, w1) \<Rightarrow>
          \<lparr>result = Failure RetrievalError user_failure, trace = pre @ [RETRIEVE, DONE],
           candidates = [], world = w1\<rparr>
      | (Some facts, w1) \<Rightarrow>
          (case generate env req facts w1 of
             (None, w2) \<Rightarrow>
               \<lparr>result = Failure GenerationError user_failure,
                trace = pre @ [RETRIEVE, GENERATE, DONE], candidates = [], world = w2\<rparr>
           | (Some s, w2) \<Rightarrow>
               (case clarify env req facts w2 of
                  (asked, w3) \<Rightarrow>
                    if fst asked \<noteq> [] \<and> \<not> skip_followups req \<and> followup_answers req = None
                    then
                      \<lparr>result = NeedsClarification (fst asked) (snd asked),
                       trace = pre @ [RETRIEVE, GENERATE, CLARIFY_CHECK, ASK_CLARIFY, DONE],
                       candidates = [\<lparr>sql_text = s, produced_by = Generation, status = Unchecked\<rparr>],
                       world = w3\<rparr>
                    else
                      (case gate env facts s of
                         Valid \<Rightarrow>
                           (case execute env s w3 of
                              (Inr rows, w4) \<Rightarrow>
                                \<lparr>result = GeneratedResult s rows Generation,
                                 trace = pre @ [RETRIEVE, GENERATE, CLARIFY_CHECK, SAFETY_GATE,
                                                EXECUTE, DONE],
                                 candidates =
                                   [\<lparr>sql_text = s, produced_by = Generation, status = Valid\<rparr>],
                                 world = w4\<rparr>
                            | (Inl e, w4) \<Rightarrow>
                                repair_round env req facts
                                  (pre @ [RETRIEVE, GENERATE, CLARIFY_CHECK, SAFETY_GATE, EXECUTE])
                                  \<lparr>sql_text = s, produced_by = Generation, status = Valid\<rparr>
                                  ExecutionError w4)
                       | Rejected reason \<Rightarrow>
                           repair_round env req facts
                             (pre @ [RETRIEVE, GENERATE, CLARIFY_CHECK, SAFETY_GATE])
                             \<lparr>sql_text = s, produced_by = Generation, status = Rejected reason\<rparr>
                             reason w3
                       | Unchecked \<Rightarrow>
                           \<lparr>result = Failure GenerationError user_failure,
                            trace = pre @ [RETRIEVE, GENERATE, CLARIFY_CHECK, SAFETY_GATE, DONE],
                            candidates =
                              [\<lparr>sql_text = s, produced_by = Generation, status = Unchecked\<rparr>],
                            world = w3\<rparr>))))"

text \<open>
  Modelled from the spec: one run of the Orchestrator (section 4.1). Mode gating decides
  first, in \<open>MODE_CHECK\<close>: in conversation mode no SQL path is entered. In report mode a
  saved-query hit executes the record's SQL as it is; a miss goes on to the generation
  path.
\<close>

definition orchestrate :: "'w collaborators \<Rightarrow> request \<Rightarrow> 'w \<Rightarrow> 'w outcome" where
  "orchestrate env req w =
     (if mode req = Conversation
      then
        (case respond env req w of
           (answer, w1) \<Rightarrow>
             \<lparr>result = Conversational answer,
              trace = [START, MODE_CHECK, CONVERSATIONAL, DONE], candidates = [], world = w1\<rparr>)
      else
        (case match_saved (score_of env) (least_score env) (catalog env) (question req)
                (query_key req) of
           Some r \<Rightarrow>
             (case execute env (sql r) w of
                (Inr rows, w1) \<Rightarrow>
                  \<lparr>result = SavedQueryResult (sql r) rows,
                   trace = [START, MODE_CHECK, MATCH_SAVED, EXECUTE_SAVED, DONE],
                   candidates = [\<lparr>sql_text = sql r, produced_by = Saved, status = Valid\<rparr>],
                   world = w1\<rparr>
              | (Inl e, w1) \<Rightarrow>
                  \<lparr>result = Failure ExecutionError user_failure,
                   trace = [START, MODE_CHECK, MATCH_SAVED, EXECUTE_SAVED, DONE],
                   candidates = [\<lparr>sql_text = sql r, produced_by = Saved, status = Valid\<rparr>],
                   world = w1\<rparr>)
         | None \<Rightarrow> generation_path env req [START, MODE_CHECK, MATCH_SAVED] w))"

definition saved_route :: "'w collaborators \<Rightarrow> request \<Rightarrow> string option" where
  \<comment> \<open>the key of the saved query that a request is routed to, if any\<close>
  "saved_route env req =
     map_option key
       (match_saved (score_of env) (least_score env) (catalog env) (question req) (query_key req))"

subsection \<open>Counting invocations\<close>

text \<open>
  Modelled from the spec: an invocation of a collaborator is an application of its
  function. To observe the invocations of any collaborators, each of their functions is
  wrapped so that applying it also appends a record of the call to a log kept in the
  state of the world; the wrapped collaborators answer as the given ones do. The calls
  of a run are the log after the run of the wrapped collaborators from an empty log.
\<close>

datatype call =
    Responded | Retrieved | Generated | Clarified
  | Executed string    \<comment> \<open>the SQL handed to the Execution Adapter\<close>
  | Repaired string    \<comment> \<open>the SQL handed to the Repair Agent\<close>

definition noting :: "call \<Rightarrow> ('w \<Rightarrow> 'a \<times> 'w) \<Rightarrow> 'w \<times> call list \<Rightarrow> 'a \<times> ('w \<times> call list)" where
  "noting c f wl = (fst (f (fst wl)), (snd (f (fst wl)), snd wl @ [c]))"

definition logged :: "'w collaborators \<Rightarrow> ('w \<times> call list) collaborators" where
  "logged env =
     \<lparr>catalog = catalog env, score_of = score_of env, least_score = least_score env,
      resolves = resolves env, grounded = grounded env,
      respond = (\<lambda>r. noting Responded (respond env r)),
      retrieve = (\<lambda>q. noting Retrieved (retrieve env q)),
      generate = (\<lambda>r facts. noting Generated (generate env r facts)),
      clarify = (\<lambda>r facts. noting Clarified (clarify env r facts)),
      execute = (\<lambda>s. noting (Executed s) (execute env s)),
      repair = (\<lambda>r facts s why. noting (Repaired s) (repair env r facts s why))\<rparr>"

definition calls :: "'w collaborators \<Rightarrow> request \<Rightarrow> 'w \<Rightarrow> call list" where
  "calls env req w = snd (world (orchestrate (logged env) req (w, [])))"





subsection \<open>The request on the wire\<close>

text \<open>
  Modelled from the spec: how the body of the chat query operation (section 6) is read
  as a Question (section 3). \<open>question\<close> must be a string, \<open>skip_followups\<close> a boolean and
  \<open>mode\<close> one of the two modes; an optional field that is not of its type counts as
  absent. The caller identity comes with the transport, not in the body.
\<close>

definition text_of :: "jsval \<Rightarrow> string option" where
  "text_of v = (case v of JStr s \<Rightarrow> Some s | _ \<Rightarrow> None)"

definition answers_of :: "jsval \<Rightarrow> (string \<times> string) list option" where
  "answers_of v = (case v of JObj kvs \<Rightarrow> Some (map (\<lambda>(k, x). (k, js_String x)) kvs) | _ \<Rightarrow> None)"

definition request_of :: "string \<Rightarrow> jsobj \<Rightarrow> request option" where
  "request_of who body =
     (case js_get body ''question'' of
        JStr q \<Rightarrow>
          (case js_get body ''skip_followups'' of
             JBool skip \<Rightarrow>
               if js_get body ''mode'' = JStr ''conversation'' \<or> js_get body ''mode'' = JStr ''report''
               then Some \<lparr>question = q, caller = who,
                          mode = (if js_get body ''mode'' = JStr ''conversation''
                                  then Conversation else Report),
                          previous_sql_query = text_of (js_get body ''previous_sql_query''),
                          query_key = text_of (js_get body ''query_key''),
                          followup_answers = answers_of (js_get body ''followup_answers''),
                          skip_followups = skip\<rparr>
               else None
           | _ \<Rightarrow> None)
      | _ \<Rightarrow> None)"

section \<open>Statements of the specification, in its own words\<close>

definition has_answer :: "strobj \<Rightarrow> jsobj \<Rightarrow> bool" where
  \<comment> \<open>the question has a non-empty answer\<close>
  "has_answer answers q = (case map_of answers (qkey q) of None \<Rightarrow> False | Some s \<Rightarrow> s \<noteq> [])"

definition own_keys :: "jsobj list \<Rightarrow> bool" where
  \<comment> \<open>no question is keyed by the name of a member that objects inherit\<close>
  "own_keys qs = list_all (\<lambda>q. inherited (qkey q) = None) qs"

definition lacking :: "jsobj list \<Rightarrow> strobj \<Rightarrow> jsobj set" where
  \<comment> \<open>the required questions lacking an answer\<close>
  "lacking qs answers = {q \<in> set qs. truthy (js_get q ''required'') \<and> \<not> has_answer answers q}"

definition csv_quote :: "string \<Rightarrow> string" where
  \<comment> \<open>wrapped in double quotes with every embedded double quote doubled\<close>
  "csv_quote s =
     [CHR 0x22] @ concat (map (\<lambda>c. if c = CHR 0x22 then [CHR 0x22, CHR 0x22] else [c]) s) @ [CHR 0x22]"

definition needs_quoting :: "string \<Rightarrow> bool" where
  \<comment> \<open>contains a comma, a double quote or a newline\<close>
  "needs_quoting s = (CHR '','' \<in> set s \<or> CHR 0x22 \<in> set s \<or> CHR 0x0A \<in> set s)"

definition csv_value :: "jsval \<Rightarrow> string" where
  "csv_value v =
     (if v = JNull \<or> v = JUndefined then []
      else if needs_quoting (js_String v) then csv_quote (js_String v)
      else js_String v)"

definition csv_lines :: "jsobj list \<Rightarrow> string list" where
  \<comment> \<open>the header line, then one line per row\<close>
  "csv_lines data =
     join '','' (map fst (hd data))
       # map (\<lambda>row. join '','' (map (\<lambda>h. csv_value (js_get row h)) (map fst (hd data)))) data"

definition rendered_fields :: "string list" where
  "rendered_fields =
     [''id'', ''question'', ''type'', ''options'', ''required'', ''estimated_mb'', ''estimated_seconds'']"

definition agree_on :: "string list \<Rightarrow> jsobj \<Rightarrow> jsobj \<Rightarrow> bool" where
  "agree_on ks a b = list_all (\<lambda>k. js_get a k = js_get b k) ks"

section \<open>Example inputs\<close>

definition example_rows :: "jsobj list" where
  "example_rows =
     [[(''NAME'', JStr ''Rao, A''), (''BALANCE'', JNum 1250), (''NOTE'', JNull)],
      [(''NAME'', JStr (''say '' @ [CHR 0x22] @ ''hi'' @ [CHR 0x22])), (''BALANCE'', JNum (-7))]]"

definition failed_response :: jsval where
  "failed_response =
     JObj [(''success'', JBool False), (''answer'', JStr ''The query could not be executed.''),
           (''sql_query'', JStr ''SELECT * FROM MISSING_TABLE'')]"

definition example_state :: chat_state where
  "example_state =
     \<lparr>messages = [], input = [], loading = False, loadingStatus = ''Processing your query...'',
      lastSqlQuery = JStr ''SELECT COUNT(*) FROM GOLD_COLLATERAL_DIM''\<rparr>"

definition costed_question :: jsobj where
  "costed_question =
     [(''id'', JStr ''freshness''), (''question'', JStr ''Run on the full history?''),
      (''type'', JStr ''confirmation''), (''required'', JBool True), (''estimated_cost'', JStr ''high''),
      (''estimated_mb'', JNum 512), (''estimated_seconds'', JNum 40)]"

definition example_questions :: "jsobj list" where
  "example_questions =
     [[(''id'', JStr ''date_column''), (''question'', JStr ''Which date should be used?''),
       (''type'', JStr ''date_selection''), (''options'', JArr [JStr ''Open date'', JStr ''Custom Date'']),
       (''required'', JBool True)],
      [(''id'', JStr ''note''), (''question'', JStr ''Anything else?''), (''type'', JStr ''text''),
       (''required'', JBool False)]]"

definition constructor_question :: jsobj where
  "constructor_question =
     [(''id'', JStr ''constructor''), (''question'', JStr ''Which constructor built the report?''),
      (''type'', JStr ''text''), (''required'', JBool True)]"

definition followup_response :: jsobj where
  "followup_response =
     [(''needs_followup'', JBool True),
      (''followup_questions'', JArr (map JObj example_questions)),
      (''followup_analysis'', JStr ''Two date columns match.''),
      (''answer'', JStr ''Please clarify.'')]"

definition example_catalog :: "saved_query list" where
  "example_catalog =
     [\<lparr>key = ''rekyc_overdue'', triggers = [''rekyc due'', ''freeze''],
       canonical = ''Customers whose ReKYC is due but not frozen'',
       sql = ''SELECT * FROM SUPER_CUSTOMER_DIM WHERE REKYC_DUE = 1'', description = ''ReKYC''\<rparr>,
      \<lparr>key = ''rekyc_freeze'', triggers = [''ReKYC'', ''credit freeze''],
       canonical = ''ReKYC credit freeze not applied'',
       sql = ''SELECT * FROM CUSTOM_FREEZE_DETAILS_DIM'', description = ''Freeze''\<rparr>]"

text \<open>
  Stub collaborators whose world is the number of invocations of the Execution Adapter
  so far: the adapter stub always fails and counts itself, the others leave the count
  alone.
\<close>

definition failing_env :: "nat collaborators" where
  "failing_env =
     \<lparr>catalog = example_catalog, score_of = keyword_overlap, least_score = 1,
      resolves = (\<lambda>s. True),
      grounded = (\<lambda>facts s. True),
      respond = (\<lambda>r n. (''This platform answers questions about the data mart.'', n)),
      retrieve = (\<lambda>q n. (Some [''GOLD_COLLATERAL_DIM: gold collateral''], n)),
      generate = (\<lambda>r facts n. (Some ''SELECT COUNT(*) FROM GOLD_COLLATERAL_DIM'', n)),
      clarify = (\<lambda>r facts n. (([], []), n)),
      execute = (\<lambda>s n. (Inl ''timeout'', Suc n)),
      repair = (\<lambda>r facts s why n.
                  (Some ''SELECT COUNT(*) FROM GOLD_COLLATERAL_DIM WHERE 1 = 1'', n))\<rparr>"

definition report_request :: request where
  "report_request =
     \<lparr>question = ''How many gold loan accounts are there?'', caller = ''analyst'', mode = Report,
      previous_sql_query = None, query_key = None, followup_answers = None, skip_followups = False\<rparr>"

definition date_item :: clarification_item where
  "date_item = \<lparr>item_id = ''date_column'', item_question = ''Which date should be used?'',
     item_type = T_date_selection, item_options = Some [''Open date'', ''Custom Date''],
     item_required = True, item_estimated_cost = None\<rparr>"

definition clarifying_env :: "nat collaborators" where
  "clarifying_env =
     failing_env\<lparr>clarify := (\<lambda>r facts n. (([date_item], ''Two date columns match.''), n)),
                 execute := (\<lambda>s n. (Inr [[(''COUNT'', ''42'')]], Suc n))\<rparr>"



section \<open>Properties of the API client\<close>

lemma sendQuery_body_keys:
  "map fst (sendQuery_body q up qk prev fa skip m) =
     [''question'', ''query_key'', ''use_predefined'', ''previous_sql_query'', ''followup_answers'',
      ''skip_followups'', ''mode'']"
  by (simp add: sendQuery_body_def)

lemma sendQuery_body_get:
  "js_get (sendQuery_body q up qk prev fa skip m) ''skip_followups'' =
     JBool (truthy (js_default (JBool False) skip))"
  "js_get (sendQuery_body q up qk prev fa skip m) ''mode'' = js_default (JStr ''report'') m"
  "js_get (sendQuery_body q up qk prev fa skip m) ''query_key'' = js_default JNull qk"
  "js_get (sendQuery_body q up qk prev fa skip m) ''previous_sql_query'' =
     js_or (js_default JNull prev) JNull"
  "js_get (sendQuery_body q up qk prev fa skip m) ''followup_answers'' =
     js_or (js_default JNull fa) JNull"
  by (simp_all add: sendQuery_body_def js_get_def)

text \<open>
  C6, as stated, fails: the six-parameter variant of \<open>sendQuery\<close> posts a body without a
  \<open>mode\<close> field, and the seven-parameter variant posts whatever \<open>mode\<close> it is given.
\<close>

theorem sendQuery_mode_counterexample:
  "map fst (sendQuery_body6 (JStr ''How many gold loan accounts are there?'') (JBool True) JNull JNull
              JUndefined JUndefined) =
     [''question'', ''query_key'', ''use_predefined'', ''previous_sql_query'', ''followup_answers'',
      ''skip_followups'']
   \<and> js_get (sendQuery_body (JStr ''How many gold loan accounts are there?'') (JBool True) JNull JNull
                JUndefined JUndefined (JStr ''sql'')) ''mode'' = JStr ''sql''"
  by (simp add: sendQuery_body6_def sendQuery_body_def js_get_def js_default_def)

text \<open>
  C6, amended: the body that the seven-parameter \<open>sendQuery\<close> posts has exactly the fields
  question, query_key, use_predefined, previous_sql_query, followup_answers,
  skip_followups and mode, in this order; skip_followups is a boolean; mode is the
  caller's argument and "report" when the argument is omitted, hence "conversation" or
  "report" whenever the caller passes one of the two or nothing; previous_sql_query and
  followup_answers are null when the argument is omitted, null or otherwise falsy, and
  query_key is null when omitted. The six-parameter variant posts the same body without
  the mode field.
\<close>

theorem sendQuery_body_fields:
  "map fst (sendQuery_body q up qk prev fa skip m) =
     [''question'', ''query_key'', ''use_predefined'', ''previous_sql_query'', ''followup_answers'',
      ''skip_followups'', ''mode'']
   \<and> js_get (sendQuery_body q up qk prev fa skip m) ''skip_followups'' \<in> {JBool True, JBool False}
   \<and> js_get (sendQuery_body q up qk prev fa skip m) ''mode'' =
       (if m = JUndefined then JStr ''report'' else m)
   \<and> (m \<in> {JUndefined, JStr ''conversation'', JStr ''report''} \<longrightarrow>
        js_get (sendQuery_body q up qk prev fa skip m) ''mode'' \<in> {JStr ''conversation'', JStr ''report''})
   \<and> (\<not> truthy prev \<longrightarrow> js_get (sendQuery_body q up qk prev fa skip m) ''previous_sql_query'' = JNull)
   \<and> (\<not> truthy fa \<longrightarrow> js_get (sendQuery_body q up qk prev fa skip m) ''followup_answers'' = JNull)
   \<and> (qk = JUndefined \<longrightarrow> js_get (sendQuery_body q up qk prev fa skip m) ''query_key'' = JNull)
   \<and> sendQuery_body6 q up qk prev fa skip = butlast (sendQuery_body q up qk prev fa skip m)"
proof -
  have keys: "map fst (sendQuery_body q up qk prev fa skip m) =
     [''question'', ''query_key'', ''use_predefined'', ''previous_sql_query'', ''followup_answers'',
      ''skip_followups'', ''mode'']"
    by (rule sendQuery_body_keys)
  have skip: "js_get (sendQuery_body q up qk prev fa skip m) ''skip_followups'' \<in> {JBool True, JBool False}"
    by (cases "truthy (js_default (JBool False) skip)") (simp_all add: sendQuery_body_get)
  have mode_eq: "js_get (sendQuery_body q up qk prev fa skip m) ''mode'' =
       (if m = JUndefined then JStr ''report'' else m)"
    by (simp add: sendQuery_body_get js_default_def)
  have prev_null: "\<not> truthy prev \<longrightarrow>
       js_get (sendQuery_body q up qk prev fa skip m) ''previous_sql_query'' = JNull"
    by (simp add: sendQuery_body_get js_default_def js_or_def)
  have fa_null: "\<not> truthy fa \<longrightarrow>
       js_get (sendQuery_body q up qk prev fa skip m) ''followup_answers'' = JNull"
    by (simp add: sendQuery_body_get js_default_def js_or_def)
  have qk_null: "qk = JUndefined \<longrightarrow>
       js_get (sendQuery_body q up qk prev fa skip m) ''query_key'' = JNull"
    by (simp add: sendQuery_body_get js_default_def)
  have six: "sendQuery_body6 q up qk prev fa skip = butlast (sendQuery_body q up qk prev fa skip m)"
    by (simp add: sendQuery_body6_def sendQuery_body_def)
  from mode_eq have mode_in: "m \<in> {JUndefined, JStr ''conversation'', JStr ''report''} \<longrightarrow>
        js_get (sendQuery_body q up qk prev fa skip m) ''mode'' \<in> {JStr ''conversation'', JStr ''report''}"
    by auto
  from keys skip mode_eq mode_in prev_null fa_null qk_null six show ?thesis
    by blast
qed

theorem sendQuery_body_fields_witness:
  "JUndefined \<in> {JUndefined, JStr ''conversation'', JStr ''report''}
   \<and> \<not> truthy JNull \<and> \<not> truthy JUndefined
   \<and> js_get (sendQuery_body (JStr ''List all NPA accounts'') (JBool True) JUndefined JNull JUndefined
                JUndefined JUndefined) ''mode'' \<in> {JStr ''conversation'', JStr ''report''}
   \<and> js_get (sendQuery_body (JStr ''List all NPA accounts'') (JBool True) JUndefined JNull JUndefined
                JUndefined JUndefined) ''previous_sql_query'' = JNull
   \<and> js_get (sendQuery_body (JStr ''List all NPA accounts'') (JBool True) JUndefined JNull JUndefined
                JUndefined JUndefined) ''followup_answers'' = JNull
   \<and> js_get (sendQuery_body (JStr ''List all NPA accounts'') (JBool True) JUndefined JNull JUndefined
                JUndefined JUndefined) ''query_key'' = JNull"
  using sendQuery_body_fields [of "JStr ''List all NPA accounts''" "JBool True" JUndefined JNull
      JUndefined JUndefined JUndefined]
  by simp

section \<open>Properties of the FollowUpQuestions component\<close>

lemma own_not_proto: "inherited k = None \<Longrightarrow> k \<noteq> ''__proto__''"
  by (auto simp: inherited_def)

lemma fold_set_map_of:
  "\<forall>q \<in> set xs. inherited (f q) = None \<Longrightarrow>
     map_of (fold (\<lambda>q e. str_set (f q) v e) xs e0) k =
       (if k \<in> f ` set xs then Some v else map_of e0 k)"
  by (induction xs arbitrary: e0) (auto simp: update_conv' str_set_def dest: own_not_proto)

lemma has_answer_truthy:
  "inherited (qkey q) = None \<Longrightarrow> truthy (str_get answers (qkey q)) = has_answer answers q"
  by (simp add: str_get_def has_answer_def split: option.splits)

lemma missing_questions_set:
  assumes "own_keys qs"
  shows "set (missing_questions qs ans) = lacking qs ans"
  using assms
  by (auto simp: missing_questions_def js_and_def has_answer_truthy lacking_def own_keys_def
      list_all_iff)

lemma handleConfirm_complete:
  assumes "own_keys qs" "lacking qs ans = {}"
  shows "handleConfirm qs ans = OnConfirm ans"
proof -
  have "set (missing_questions qs ans) = {}"
    using assms by (simp add: missing_questions_set)
  then have "missing_questions qs ans = []"
    by simp
  then show ?thesis
    by (simp add: handleConfirm_def)
qed

lemma handleConfirm_incomplete:
  assumes "own_keys qs" "lacking qs ans \<noteq> {}"
  shows "\<exists>errs. handleConfirm qs ans = SetErrors errs \<and>
     (\<forall>k. map_of errs k =
        (if k \<in> qkey ` lacking qs ans then Some ''This question is required'' else None))"
proof -
  have m: "set (missing_questions qs ans) = lacking qs ans"
    using assms(1) by (rule missing_questions_set)
  with assms(2) have "missing_questions qs ans \<noteq> []"
    by auto
  moreover have "\<forall>q \<in> set (missing_questions qs ans). inherited (qkey q) = None"
    using assms(1) m by (auto simp: lacking_def own_keys_def list_all_iff)
  ultimately show ?thesis
    by (simp add: handleConfirm_def Let_def fold_set_map_of m)
qed

text \<open>
  When no question is keyed by the name of an inherited member, the handler does
  validate: it calls \<open>onConfirm\<close>, with the answers, if and only if every question
  marked required has a non-empty answer, and otherwise sets the errors to 'This
  question is required' for exactly the required questions lacking an answer.
\<close>

lemma handleConfirm_own_keys:
  assumes "own_keys qs"
  shows "((\<exists>a. handleConfirm qs ans = OnConfirm a) \<longleftrightarrow>
      (\<forall>q \<in> set qs. truthy (js_get q ''required'') \<longrightarrow> has_answer ans q))
   \<and> ((\<forall>q \<in> set qs. truthy (js_get q ''required'') \<longrightarrow> has_answer ans q) \<longrightarrow>
        handleConfirm qs ans = OnConfirm ans)
   \<and> (\<not> (\<forall>q \<in> set qs. truthy (js_get q ''required'') \<longrightarrow> has_answer ans q) \<longrightarrow>
        (\<exists>errs. handleConfirm qs ans = SetErrors errs \<and>
           (\<forall>k. map_of errs k =
              (if k \<in> qkey ` {q \<in> set qs. truthy (js_get q ''required'') \<and> \<not> has_answer ans q}
               then Some ''This question is required'' else None))))"
proof -
  have all_iff: "(\<forall>q \<in> set qs. truthy (js_get q ''required'') \<longrightarrow> has_answer ans q) \<longleftrightarrow>
      lacking qs ans = {}"
    by (auto simp: lacking_def)
  have lacking_eq: "{q \<in> set qs. truthy (js_get q ''required'') \<and> \<not> has_answer ans q} = lacking qs ans"
    by (simp add: lacking_def)
  show ?thesis
  proof (cases "lacking qs ans = {}")
    case True
    then show ?thesis
      using handleConfirm_complete [OF assms True] all_iff by simp
  next
    case False
    from handleConfirm_incomplete [OF assms False] obtain errs where
      e: "handleConfirm qs ans = SetErrors errs"
      "\<forall>k. map_of errs k =
         (if k \<in> qkey ` lacking qs ans then Some ''This question is required'' else None)"
      by blast
    from False all_iff have notall:
      "\<not> (\<forall>q \<in> set qs. truthy (js_get q ''required'') \<longrightarrow> has_answer ans q)"
      by simp
    from e notall show ?thesis
      unfolding lacking_eq by simp
  qed
qed

text \<open>
  C8 says that the confirm handler calls \<open>onConfirm\<close> only if every question marked
  required has a non-empty answer. The handler tests \<open>!answers[q.id]\<close> on a plain
  object, and that lookup also finds what every object inherits: for a required
  question whose id is \<open>constructor\<close> and no answer at all, \<open>answers[q.id]\<close> is the
  built-in \<open>Object\<close> function, which is truthy, so the question is not counted as
  missing and \<open>onConfirm\<close> is called with the empty answers.
\<close>

theorem handleConfirm_inherited_answer:
  "truthy (js_get constructor_question ''required'')
   \<and> \<not> has_answer [] constructor_question
   \<and> handleConfirm [constructor_question] [] = OnConfirm []"
  by (simp add: has_answer_def constructor_question_def js_get_def qkey_def
      handleConfirm_def missing_questions_def js_and_def str_get_def inherited_def)

lemma agree_fields:
  assumes "agree_on rendered_fields a b"
  shows "js_get a ''id'' = js_get b ''id''" "js_get a ''question'' = js_get b ''question''"
    "js_get a ''type'' = js_get b ''type''" "js_get a ''options'' = js_get b ''options''"
    "js_get a ''required'' = js_get b ''required''"
    "js_get a ''estimated_mb'' = js_get b ''estimated_mb''"
    "js_get a ''estimated_seconds'' = js_get b ''estimated_seconds''"
  using assms by (simp_all add: agree_on_def rendered_fields_def)

lemma agree_qkey: "agree_on rendered_fields a b \<Longrightarrow> qkey a = qkey b"
  by (simp add: qkey_def agree_fields)

lemma agree_option_radio: "agree_on rendered_fields a b \<Longrightarrow> option_radio a v = option_radio b v"
  by (rule ext) (simp add: option_radio_def agree_fields agree_qkey split: prod.splits)

lemma agree_confirmation_radio:
  "agree_on rendered_fields a b \<Longrightarrow> confirmation_radio a v x l = confirmation_radio b v x l"
  by (simp add: confirmation_radio_def agree_fields agree_qkey)

lemma agree_renderQuestionInput:
  assumes "agree_on rendered_fields a b"
  shows "renderQuestionInput ans a = renderQuestionInput ans b"
  unfolding renderQuestionInput_def agree_fields [OF assms] agree_qkey [OF assms]
    agree_option_radio [OF assms] agree_confirmation_radio [OF assms]
  by (rule refl)

text \<open>Each of the seven fields is read: changing it alone changes what is rendered.\<close>

lemma rendered_fields_used:
  "renderQuestion [] [] (0, costed_question) \<noteq>
     renderQuestion [] [] (0, AList.update ''id'' (JStr ''x'') costed_question)"
  "renderQuestion [] [] (0, costed_question) \<noteq>
     renderQuestion [] [] (0, AList.update ''question'' (JStr ''x'') costed_question)"
  "renderQuestion [] [] (0, costed_question) \<noteq>
     renderQuestion [] [] (0, AList.update ''type'' (JStr ''text'') costed_question)"
  "renderQuestion [] [] (0, AList.update ''type'' (JStr ''date_selection'') costed_question) \<noteq>
     renderQuestion [] []
       (0, AList.update ''options'' (JArr [JStr ''Today''])
             (AList.update ''type'' (JStr ''date_selection'') costed_question))"
  "renderQuestion [] [] (0, costed_question) \<noteq>
     renderQuestion [] [] (0, AList.update ''required'' (JBool False) costed_question)"
  "renderQuestion [] [] (0, costed_question) \<noteq>
     renderQuestion [] [] (0, AList.update ''estimated_mb'' (JNum 1) costed_question)"
  "renderQuestion [] [] (0, costed_question) \<noteq>
     renderQuestion [] [] (0, AList.update ''estimated_seconds'' (JNum 1) costed_question)"
  by (simp_all add: costed_question_def js_get_def renderQuestion_def renderQuestionInput_def
      jsx_and_def confirmation_radio_def qkey_def js_or_def str_get_def Let_def option_radio_def
      js_and_def inherited_def strict_eq_def)

text \<open>
  C7, as stated, fails: two questions that agree on id, question, type, options, required
  and estimated_cost are rendered differently, because the renderer reads
  \<open>estimated_mb\<close>.
\<close>

theorem renderQuestion_estimated_cost_counterexample:
  "js_get costed_question ''id'' =
     js_get (AList.update ''estimated_mb'' (JNum 1) costed_question) ''id''
   \<and> js_get costed_question ''question'' =
       js_get (AList.update ''estimated_mb'' (JNum 1) costed_question) ''question''
   \<and> js_get costed_question ''type'' =
       js_get (AList.update ''estimated_mb'' (JNum 1) costed_question) ''type''
   \<and> js_get costed_question ''options'' =
       js_get (AList.update ''estimated_mb'' (JNum 1) costed_question) ''options''
   \<and> js_get costed_question ''required'' =
       js_get (AList.update ''estimated_mb'' (JNum 1) costed_question) ''required''
   \<and> js_get costed_question ''estimated_cost'' =
       js_get (AList.update ''estimated_mb'' (JNum 1) costed_question) ''estimated_cost''
   \<and> renderQuestion [] [] (0, costed_question) \<noteq>
       renderQuestion [] [] (0, AList.update ''estimated_mb'' (JNum 1) costed_question)"
  by (simp add: costed_question_def js_get_def renderQuestion_def renderQuestionInput_def
      jsx_and_def confirmation_radio_def qkey_def js_or_def str_get_def inherited_def strict_eq_def)

lemma agree_renderQuestion:
  assumes "agree_on rendered_fields a b"
  shows "renderQuestion ans errs (i, a) = renderQuestion ans errs (i, b)"
  unfolding renderQuestion_def prod.case agree_fields [OF assms] agree_qkey [OF assms]
    agree_renderQuestionInput [OF assms]
  by (rule refl)

lemma renderQuestionInput_default:
  assumes "js_get a ''type'' \<noteq> JStr ''date_selection''" "js_get a ''type'' \<noteq> JStr ''confirmation''"
    "js_get a ''type'' \<noteq> JStr ''text''"
  shows "renderQuestionInput ans a =
     Some (Elem ''input''
             [(''type'', AVal (JStr ''text'')),
              (''className'', AVal (JStr ''followup-text-input'')),
              (''value'', AVal (js_or (str_get ans (qkey a)) (JStr []))),
              (''onChange'', AHandler (AnswerChange (qkey a))),
              (''placeholder'', AVal (JStr ''Enter your answer...''))] [])"
  using assms by (simp add: renderQuestionInput_def Let_def)

text \<open>
  C7, amended: a Clarification Request is an ordered list of question objects, and what
  the renderer displays for a question is determined by the fields id, question, type,
  options, required, estimated_mb and estimated_seconds of the object (and by the
  position, the answers and the errors): two questions that agree on these seven fields
  are rendered alike, whatever their other fields, estimated_cost included. The types
  date_selection, confirmation and text have their own input; a question of any other
  type gets a one-line text input.
\<close>

theorem renderQuestion_fields:
  "(agree_on rendered_fields a b \<longrightarrow>
      renderQuestion ans errs (i, a) = renderQuestion ans errs (i, b))
   \<and> (js_get a ''type'' \<notin> {JStr ''date_selection'', JStr ''confirmation'', JStr ''text''} \<longrightarrow>
        renderQuestionInput ans a =
          Some (Elem ''input''
                  [(''type'', AVal (JStr ''text'')),
                   (''className'', AVal (JStr ''followup-text-input'')),
                   (''value'', AVal (js_or (str_get ans (qkey a)) (JStr []))),
                   (''onChange'', AHandler (AnswerChange (qkey a))),
                   (''placeholder'', AVal (JStr ''Enter your answer...''))] []))"
  using agree_renderQuestion [of a b ans errs i] renderQuestionInput_default [of a ans]
  by blast

theorem renderQuestion_fields_witness:
  "renderQuestion [] [] (0, costed_question) =
     renderQuestion [] [] (0, AList.delete ''estimated_cost'' costed_question)
   \<and> renderQuestionInput [] (AList.update ''type'' (JStr ''number'') costed_question) =
       Some (Elem ''input''
               [(''type'', AVal (JStr ''text'')),
                (''className'', AVal (JStr ''followup-text-input'')),
                (''value'', AVal (JStr [])),
                (''onChange'', AHandler (AnswerChange ''freshness'')),
                (''placeholder'', AVal (JStr ''Enter your answer...''))] [])"
proof -
  have same: "agree_on rendered_fields costed_question (AList.delete ''estimated_cost'' costed_question)"
    by (simp add: agree_on_def rendered_fields_def costed_question_def js_get_def)
  have other: "js_get (AList.update ''type'' (JStr ''number'') costed_question) ''type''
      \<notin> {JStr ''date_selection'', JStr ''confirmation'', JStr ''text''}"
    by (simp add: costed_question_def js_get_def)
  have k: "qkey (AList.update ''type'' (JStr ''number'') costed_question) = ''freshness''"
    by (simp add: costed_question_def js_get_def qkey_def)
  from renderQuestion_fields [of costed_question "AList.delete ''estimated_cost'' costed_question"
      "[]" "[]" 0] same
  have first: "renderQuestion [] [] (0, costed_question) =
     renderQuestion [] [] (0, AList.delete ''estimated_cost'' costed_question)"
    by blast
  from renderQuestion_fields [of "AList.update ''type'' (JStr ''number'') costed_question" _ "[]"] other
  have second: "renderQuestionInput [] (AList.update ''type'' (JStr ''number'') costed_question) =
       Some (Elem ''input''
               [(''type'', AVal (JStr ''text'')),
                (''className'', AVal (JStr ''followup-text-input'')),
                (''value'', AVal (js_or (str_get [] (qkey (AList.update ''type'' (JStr ''number'') costed_question))) (JStr []))),
                (''onChange'', AHandler (AnswerChange (qkey (AList.update ''type'' (JStr ''number'') costed_question)))),
                (''placeholder'', AVal (JStr ''Enter your answer...''))] [])"
    by blast
  from first second k show ?thesis
    by (simp add: str_get_def js_or_def inherited_def)
qed

section \<open>Properties of the ChatInterface component\<close>

text \<open>
  Where \<open>lastSqlQuery\<close> can change. \<open>handleSend\<close> stores the SQL of any response
  object that carries a truthy \<open>sql_query\<close>, is not conversational and is not a
  clarification request; \<open>handleFollowupConfirm\<close> asks for a truthy \<open>success\<close> as well.
\<close>

lemma handleSend_lastSqlQuery:
  "lastSqlQuery (handleSend post st q qk) \<noteq> lastSqlQuery st \<Longrightarrow>
     \<exists>r. post ''/chat/query'' (handleSend_body st q qk) = Inr (JObj r)
        \<and> truthy (js_get r ''sql_query'') \<and> \<not> truthy (js_get r ''is_conversational'')
        \<and> \<not> (truthy (js_get r ''needs_followup'') \<and> isArray (js_get r ''followup_questions''))
        \<and> lastSqlQuery (handleSend post st q qk) = js_get r ''sql_query''"
  by (auto simp: handleSend_def handleSend_body_def sendQuery_def finally_state_def Let_def
      split: if_splits sum.splits jsval.splits)

lemma handleFollowupConfirm_lastSqlQuery:
  "lastSqlQuery (handleFollowupConfirm post st i ans) \<noteq> lastSqlQuery st \<Longrightarrow>
     \<exists>r. post ''/chat/query'' (handleFollowupConfirm_body st i ans) = Inr (JObj r)
        \<and> truthy (js_get r ''success'')
        \<and> truthy (js_get r ''sql_query'') \<and> \<not> truthy (js_get r ''is_conversational'')
        \<and> lastSqlQuery (handleFollowupConfirm post st i ans) = js_get r ''sql_query''"
  by (auto simp: handleFollowupConfirm_def handleFollowupConfirm_body_def sendQuery_def
      finally_state_def Let_def split: if_splits sum.splits jsval.splits)

text \<open>
  C9 says that the stored last-SQL value is unchanged after an error response. On a
  response with \<open>success: false\<close> that carries SQL, \<open>handleSend\<close> overwrites the
  stored value, while \<open>handleFollowupConfirm\<close>, given the same response, keeps it.
\<close>

theorem handleSend_stores_sql_of_failed_response:
  "lastSqlQuery (handleSend (\<lambda>path body. Inr failed_response) example_state
                   (JStr ''Show all loans'') JNull)
     = JStr ''SELECT * FROM MISSING_TABLE''
   \<and> lastSqlQuery (handleFollowupConfirm (\<lambda>path body. Inr failed_response) example_state 0 [])
     = JStr ''SELECT COUNT(*) FROM GOLD_COLLATERAL_DIM''"
  by (simp add: handleSend_def handleFollowupConfirm_def sendQuery_def failed_response_def
      example_state_def js_or_def js_default_def js_get_def finally_state_def Let_def
      followup_question_def findIndex_def slice0_def)

lemma replace_quotes_concat:
  "replace_quotes s = concat (map (\<lambda>c. if c = CHR 0x22 then [CHR 0x22, CHR 0x22] else [c]) s)"
  by (induction s) auto

lemma csv_field_value: "csv_field row h = csv_value (js_get row h)"
  by (simp add: csv_field_def csv_value_def Let_def includes_char_def needs_quoting_def
      csv_quote_def replace_quotes_concat)

lemma csv_field_fun: "csv_field row = (\<lambda>h. csv_value (js_get row h))"
  by (rule ext) (rule csv_field_value)

lemma csvContent_lines: "csvContent data = join [CHR 0x0A] (csv_lines data)"
  by (simp add: csvContent_def csv_lines_def Let_def csv_field_fun)

lemma example_rows_csv:
  "join [CHR 0x0A] (csv_lines example_rows) =
     ''NAME,BALANCE,NOTE'' @ [CHR 0x0A]
     @ [CHR 0x22] @ ''Rao, A'' @ [CHR 0x22] @ '',1250,'' @ [CHR 0x0A]
     @ [CHR 0x22] @ ''say '' @ [CHR 0x22, CHR 0x22] @ ''hi'' @ [CHR 0x22, CHR 0x22] @ [CHR 0x22]
     @ '',-7,''"
  by code_simp

text \<open>
  C10: for a non-empty result set the downloaded CSV is the header line, the column
  names of the first row joined by commas, followed by one line per row, the lines
  joined by newlines; in a row line each column's value is the empty string when it is
  null or undefined, its string form unchanged when that contains no comma, double
  quote or newline, and otherwise its string form wrapped in double quotes with every
  double quote in it doubled.
\<close>

theorem handleDownloadReport_csv:
  assumes "data \<noteq> []"
  shows "handleDownloadReport data = Some (join [CHR 0x0A] (csv_lines data))
      \<and> length (csv_lines data) = Suc (length data)
      \<and> hd (csv_lines data) = join '','' (map fst (hd data))
      \<and> tl (csv_lines data) =
          map (\<lambda>row. join '','' (map (\<lambda>h. csv_value (js_get row h)) (map fst (hd data)))) data"
  using assms by (simp add: handleDownloadReport_def csvContent_lines csv_lines_def)

theorem handleDownloadReport_csv_witness:
  "handleDownloadReport example_rows =
     Some (''NAME,BALANCE,NOTE'' @ [CHR 0x0A]
           @ [CHR 0x22] @ ''Rao, A'' @ [CHR 0x22] @ '',1250,'' @ [CHR 0x0A]
           @ [CHR 0x22] @ ''say '' @ [CHR 0x22, CHR 0x22] @ ''hi'' @ [CHR 0x22, CHR 0x22] @ [CHR 0x22]
           @ '',-7,'')"
proof -
  have ne: "example_rows \<noteq> []"
    by (simp add: example_rows_def)
  from handleDownloadReport_csv [OF ne] example_rows_csv show ?thesis
    by simp
qed


text \<open>
  What \<open>handleFollowupConfirm\<close> sends: one request, whose body asks to skip follow-ups,
  carries the answers, and repeats the last user question before the follow-up
  message.
\<close>

lemma answers_roundtrip: "answers_of (strobj_val answers) = Some answers"
  by (induction answers) (auto simp: answers_of_def strobj_val_def)

lemma confirm_body_get:
  "js_get (handleFollowupConfirm_body st i answers) ''question'' = followup_question (messages st) i"
  "js_get (handleFollowupConfirm_body st i answers) ''skip_followups'' = JBool True"
  "js_get (handleFollowupConfirm_body st i answers) ''followup_answers'' = strobj_val answers"
  "js_get (handleFollowupConfirm_body st i answers) ''mode'' = JStr ''report''"
  by (simp_all add: handleFollowupConfirm_body_def sendQuery_body_def js_get_def js_default_def
      js_or_def strobj_val_def)

lemma confirm_request:
  assumes "request_of who (handleFollowupConfirm_body st i answers) = Some r"
  shows "skip_followups r \<and> followup_answers r = Some answers \<and> mode r = Report
     \<and> JStr (question r) = followup_question (messages st) i"
  using assms
  by (auto simp: request_of_def confirm_body_get answers_roundtrip split: jsval.splits)

lemma confirm_single_request:
  assumes "post' ''/chat/query'' (handleFollowupConfirm_body st i answers) =
           post ''/chat/query'' (handleFollowupConfirm_body st i answers)"
  shows "handleFollowupConfirm post' st i answers = handleFollowupConfirm post st i answers"
  using assms by (simp add: handleFollowupConfirm_def handleFollowupConfirm_body_def sendQuery_def)

lemma send_then_confirm:
  assumes q: "truthy (js_get (handleSend_body st q qk) ''question'')"
    and resp: "post ''/chat/query'' (handleSend_body st q qk) = Inr (JObj resp)"
    and ask: "truthy (js_get resp ''needs_followup'')" "isArray (js_get resp ''followup_questions'')"
  shows "messages (handleSend post st q qk) ! Suc (length (messages st)) = followupMessage resp
     \<and> length (messages (handleSend post st q qk)) = Suc (Suc (length (messages st)))
     \<and> js_get (handleFollowupConfirm_body (handleSend post st q qk) (Suc (length (messages st)))
                 answers) ''question'' =
       js_get (handleSend_body st q qk) ''question''"
proof -
  let ?query = "js_or (js_default JNull q) (JStr (js_trim (input st)))"
  have bq: "js_get (handleSend_body st q qk) ''question'' = ?query"
    by (simp add: handleSend_body_def sendQuery_body_def js_get_def)
  from q bq have tq: "truthy ?query" by simp
  have msgs: "messages (handleSend post st q qk) =
      messages st @ [[(''type'', JStr ''user''), (''content'', ?query)], followupMessage resp]"
    using tq resp ask
    by (simp add: handleSend_def Let_def sendQuery_def handleSend_body_def finally_state_def)
  have sl: "slice0 (messages st @ [u, f]) (findIndex (messages st @ [u, f]) (Suc (length (messages st))))
      = messages st @ [u]" for u f :: jsobj
  proof -
    have "nat (1 + int (length (messages st))) = Suc (length (messages st))"
      by simp
    then show ?thesis
      by (simp add: findIndex_def slice0_def)
  qed
  have fq: "followup_question (messages (handleSend post st q qk)) (Suc (length (messages st))) = ?query"
    unfolding msgs followup_question_def sl using tq by (simp add: js_get_def js_or_def)
  show ?thesis
    using msgs fq bq by (simp add: confirm_body_get nth_append)
qed

section \<open>Properties of the Safety Gate\<close>










text \<open>
  The gate is not vacuous: a plain query passes, so does a denied word inside a
  literal, and so does a semicolon inside a comment.
\<close>

lemma safety_gate_passes:
  "safety_gate (\<lambda>s. True) (\<lambda>s. True) ''SELECT COUNT(*) FROM GOLD_COLLATERAL_DIM'' = Valid"
  "safety_gate (\<lambda>s. True) (\<lambda>s. True)
     (''SELECT * FROM notes WHERE body = '' @ [quote] @ ''drop it'' @ [quote]) = Valid"
  "safety_gate (\<lambda>s. True) (\<lambda>s. True) ''SELECT a - b, c * d / e FROM t -- all; rows'' = Valid"
  by code_simp+



section \<open>Properties of saved-query matching\<close>

lemma best_Some:
  "best f (Some b) xs = Some r \<Longrightarrow>
     (r = b \<and> (\<forall>x \<in> set xs. f x \<le> f b))
     \<or> (\<exists>pre post. xs = pre @ r # post \<and> f b < f r \<and> (\<forall>x \<in> set pre. f x < f r)
           \<and> (\<forall>x \<in> set post. f x \<le> f r))"
proof (induction xs arbitrary: b)
  case Nil
  then show ?case by simp
next
  case (Cons x xs)
  show ?case
  proof (cases "f b < f x")
    case True
    with Cons.prems have "best f (Some x) xs = Some r" by simp
    from Cons.IH [OF this] show ?thesis
    proof
      assume "r = x \<and> (\<forall>y \<in> set xs. f y \<le> f x)"
      with True have "x # xs = [] @ r # xs \<and> f b < f r \<and> (\<forall>y \<in> set []. f y < f r)
           \<and> (\<forall>y \<in> set xs. f y \<le> f r)" by simp
      then show ?thesis by blast
    next
      assume "\<exists>pre post. xs = pre @ r # post \<and> f x < f r \<and> (\<forall>y \<in> set pre. f y < f r)
           \<and> (\<forall>y \<in> set post. f y \<le> f r)"
      then obtain pre post where p: "xs = pre @ r # post" "f x < f r" "\<forall>y \<in> set pre. f y < f r"
           "\<forall>y \<in> set post. f y \<le> f r" by blast
      with True have "x # xs = (x # pre) @ r # post \<and> f b < f r \<and> (\<forall>y \<in> set (x # pre). f y < f r)
           \<and> (\<forall>y \<in> set post. f y \<le> f r)" by simp
      then show ?thesis by blast
    qed
  next
    case False
    with Cons.prems have "best f (Some b) xs = Some r" by simp
    from Cons.IH [OF this] show ?thesis
    proof
      assume "r = b \<and> (\<forall>y \<in> set xs. f y \<le> f b)"
      with False show ?thesis by simp
    next
      assume "\<exists>pre post. xs = pre @ r # post \<and> f b < f r \<and> (\<forall>y \<in> set pre. f y < f r)
           \<and> (\<forall>y \<in> set post. f y \<le> f r)"
      then obtain pre post where p: "xs = pre @ r # post" "f b < f r" "\<forall>y \<in> set pre. f y < f r"
           "\<forall>y \<in> set post. f y \<le> f r" by blast
      with False have "x # xs = (x # pre) @ r # post \<and> f b < f r \<and> (\<forall>y \<in> set (x # pre). f y < f r)
           \<and> (\<forall>y \<in> set post. f y \<le> f r)" by simp
      then show ?thesis by blast
    qed
  qed
qed

lemma best_None:
  "best f None xs = Some r \<Longrightarrow>
     \<exists>pre post. xs = pre @ r # post \<and> (\<forall>x \<in> set pre. f x < f r) \<and> (\<forall>x \<in> set post. f x \<le> f r)"
proof (cases xs)
  case Nil
  assume "best f None xs = Some r"
  with Nil show ?thesis by simp
next
  case (Cons x ys)
  assume "best f None xs = Some r"
  with Cons have "best f (Some x) ys = Some r" by simp
  from best_Some [OF this] show ?thesis
  proof
    assume "r = x \<and> (\<forall>y \<in> set ys. f y \<le> f x)"
    with Cons have "xs = [] @ r # ys \<and> (\<forall>y \<in> set []. f y < f r) \<and> (\<forall>y \<in> set ys. f y \<le> f r)"
      by simp
    then show ?thesis by blast
  next
    assume "\<exists>pre post. ys = pre @ r # post \<and> f x < f r \<and> (\<forall>y \<in> set pre. f y < f r)
           \<and> (\<forall>y \<in> set post. f y \<le> f r)"
    then obtain pre post where p: "ys = pre @ r # post" "f x < f r" "\<forall>y \<in> set pre. f y < f r"
           "\<forall>y \<in> set post. f y \<le> f r" by blast
    with Cons have "xs = (x # pre) @ r # post \<and> (\<forall>y \<in> set (x # pre). f y < f r)
           \<and> (\<forall>y \<in> set post. f y \<le> f r)" by simp
    then show ?thesis by blast
  qed
qed

lemma best_empty: "(best f cur xs = None) = (cur = None \<and> xs = [])"
  by (induction xs arbitrary: cur) (auto split: option.splits)

lemma match_saved_scored:
  assumes "match_saved sc least cat q None = Some r"
  shows "least \<le> sc r q \<and> (\<exists>pre post. cat = pre @ r # post \<and> (\<forall>x \<in> set pre. sc x q < sc r q)
           \<and> (\<forall>x \<in> set post. sc x q \<le> sc r q))"
proof -
  from assms have b: "best (\<lambda>r. sc r q) None cat = Some r" and l: "least \<le> sc r q"
    by (auto simp: match_saved_def split: option.splits if_splits)
  from best_None [OF b] l show ?thesis by simp
qed

lemma match_saved_miss:
  "(match_saved sc least cat q None = None) = (\<forall>x \<in> set cat. sc x q < least)"
proof (cases "best (\<lambda>r. sc r q) None cat")
  case None
  then have "cat = []" by (simp add: best_empty)
  with None show ?thesis by (simp add: match_saved_def)
next
  case (Some r)
  from best_None [OF Some] obtain pre post where
    p: "cat = pre @ r # post" "\<forall>x \<in> set pre. sc x q < sc r q" "\<forall>x \<in> set post. sc x q \<le> sc r q"
    by blast
  have mx: "\<forall>x \<in> set cat. sc x q \<le> sc r q"
    using p by (auto simp: less_imp_le)
  have rin: "r \<in> set cat" using p by simp
  show ?thesis
  proof (cases "least \<le> sc r q")
    case True
    with Some have "match_saved sc least cat q None = Some r"
      by (simp add: match_saved_def)
    moreover from rin True have "\<not> (\<forall>x \<in> set cat. sc x q < least)"
      by (auto simp: not_less intro!: bexI [of _ r])
    ultimately show ?thesis by simp
  next
    case False
    with Some have "match_saved sc least cat q None = None"
      by (simp add: match_saved_def)
    moreover from mx False have "\<forall>x \<in> set cat. sc x q < least"
      by (meson le_less_trans not_less)
    ultimately show ?thesis by simp
  qed
qed

text \<open>
  C5: saved-query matching is a function of the question text and the catalog. Two
  requests with the same question text (and no \<open>query_key\<close>) are routed to the same key
  against the same catalog, whatever their other fields. The record chosen reaches the
  least score, every record before it in the catalog scores strictly less and every
  record after it scores at most as much: the highest score wins and, among equal
  scores, the first record. No record is chosen exactly when none reaches the least
  score.
\<close>

theorem saved_route_deterministic:
  "(question a = question b \<and> query_key a = None \<and> query_key b = None \<longrightarrow>
      saved_route env a = saved_route env b)
   \<and> (query_key a = None \<and>
        match_saved (score_of env) (least_score env) (catalog env) (question a) (query_key a) = Some r \<longrightarrow>
        saved_route env a = Some (key r)
        \<and> least_score env \<le> score_of env r (question a)
        \<and> (\<exists>pre post. catalog env = pre @ r # post
              \<and> (\<forall>x \<in> set pre. score_of env x (question a) < score_of env r (question a))
              \<and> (\<forall>x \<in> set post. score_of env x (question a) \<le> score_of env r (question a))))
   \<and> (query_key a = None \<longrightarrow>
        (saved_route env a = None) = (\<forall>x \<in> set (catalog env). score_of env x (question a) < least_score env))"
proof -
  have det: "question a = question b \<and> query_key a = None \<and> query_key b = None \<longrightarrow>
      saved_route env a = saved_route env b"
    by (simp add: saved_route_def)
  have hit: "query_key a = None \<and>
        match_saved (score_of env) (least_score env) (catalog env) (question a) (query_key a) = Some r \<longrightarrow>
        saved_route env a = Some (key r)
        \<and> least_score env \<le> score_of env r (question a)
        \<and> (\<exists>pre post. catalog env = pre @ r # post
              \<and> (\<forall>x \<in> set pre. score_of env x (question a) < score_of env r (question a))
              \<and> (\<forall>x \<in> set post. score_of env x (question a) \<le> score_of env r (question a)))"
  proof
    assume h: "query_key a = None \<and>
        match_saved (score_of env) (least_score env) (catalog env) (question a) (query_key a) = Some r"
    then have qk: "query_key a = None"
      and m0: "match_saved (score_of env) (least_score env) (catalog env) (question a) (query_key a) = Some r"
      by blast+
    from m0 have m: "match_saved (score_of env) (least_score env) (catalog env) (question a) None = Some r"
      unfolding qk .
    from m have route: "saved_route env a = Some (key r)"
      unfolding saved_route_def qk by simp
    from match_saved_scored [OF m] route show "saved_route env a = Some (key r)
        \<and> least_score env \<le> score_of env r (question a)
        \<and> (\<exists>pre post. catalog env = pre @ r # post
              \<and> (\<forall>x \<in> set pre. score_of env x (question a) < score_of env r (question a))
              \<and> (\<forall>x \<in> set post. score_of env x (question a) \<le> score_of env r (question a)))"
      by blast
  qed
  have miss: "query_key a = None \<longrightarrow>
        (saved_route env a = None) = (\<forall>x \<in> set (catalog env). score_of env x (question a) < least_score env)"
  proof
    assume qk: "query_key a = None"
    show "(saved_route env a = None) =
        (\<forall>x \<in> set (catalog env). score_of env x (question a) < least_score env)"
      unfolding saved_route_def qk by (simp add: match_saved_miss)
  qed
  from det hit miss show ?thesis by blast
qed

lemma example_tie:
  "keyword_overlap (example_catalog ! 0) ''ReKYC freeze status?'' = 2
   \<and> keyword_overlap (example_catalog ! 1) ''ReKYC freeze status?'' = 2
   \<and> match_saved keyword_overlap 1 example_catalog ''ReKYC freeze status?'' None =
       Some (example_catalog ! 0)"
  by code_simp

theorem saved_route_deterministic_witness:
  "keyword_overlap (example_catalog ! 0) ''ReKYC freeze status?'' =
     keyword_overlap (example_catalog ! 1) ''ReKYC freeze status?''
   \<and> saved_route failing_env (report_request\<lparr>question := ''ReKYC freeze status?''\<rparr>) =
       Some ''rekyc_overdue''"
proof -
  have hyp: "query_key (report_request\<lparr>question := ''ReKYC freeze status?''\<rparr>) = None
      \<and> match_saved (score_of failing_env) (least_score failing_env) (catalog failing_env)
           (question (report_request\<lparr>question := ''ReKYC freeze status?''\<rparr>))
           (query_key (report_request\<lparr>question := ''ReKYC freeze status?''\<rparr>)) =
         Some (example_catalog ! 0)"
    using example_tie by (simp add: failing_env_def report_request_def)
  from saved_route_deterministic [of "report_request\<lparr>question := ''ReKYC freeze status?''\<rparr>" _
      failing_env "example_catalog ! 0"] hyp
  have "saved_route failing_env (report_request\<lparr>question := ''ReKYC freeze status?''\<rparr>) =
      Some (key (example_catalog ! 0))"
    by blast
  moreover have "key (example_catalog ! 0) = ''rekyc_overdue''"
    by (simp add: example_catalog_def)
  ultimately show ?thesis
    using example_tie by simp
qed

section \<open>Properties of the Orchestrator\<close>

text \<open>
  Case rules: a property of every outcome that a run can end with is a property of the
  run. Each premise names the answers of the collaborators that lead to the outcome.
\<close>

lemma repair_round_rule:
  assumes none: "\<And>w1. repair env req facts (sql_text first) why w = (None, w1) \<Longrightarrow>
      P \<lparr>result = Failure RepairExhausted user_failure, trace = pre @ [REPAIR, DONE],
         candidates = [first], world = w1\<rparr>"
    and rejected: "\<And>s2 w1 v. repair env req facts (sql_text first) why w = (Some s2, w1) \<Longrightarrow>
      gate env facts s2 = v \<Longrightarrow> v \<noteq> Valid \<Longrightarrow>
      P \<lparr>result = Failure RepairExhausted user_failure, trace = pre @ [REPAIR, SAFETY_GATE, DONE],
         candidates = [first, \<lparr>sql_text = s2, produced_by = Repair, status = v\<rparr>], world = w1\<rparr>"
    and failed: "\<And>s2 w1 e w2. repair env req facts (sql_text first) why w = (Some s2, w1) \<Longrightarrow>
      gate env facts s2 = Valid \<Longrightarrow> execute env s2 w1 = (Inl e, w2) \<Longrightarrow>
      P \<lparr>result = Failure ExecutionError user_failure,
         trace = pre @ [REPAIR, SAFETY_GATE, EXECUTE, DONE],
         candidates = [first, \<lparr>sql_text = s2, produced_by = Repair, status = Valid\<rparr>],
         world = w2\<rparr>"
    and repaired: "\<And>s2 w1 rows w2. repair env req facts (sql_text first) why w = (Some s2, w1) \<Longrightarrow>
      gate env facts s2 = Valid \<Longrightarrow> execute env s2 w1 = (Inr rows, w2) \<Longrightarrow>
      P \<lparr>result = GeneratedResult s2 rows Repair,
         trace = pre @ [REPAIR, SAFETY_GATE, EXECUTE, DONE],
         candidates = [first, \<lparr>sql_text = s2, produced_by = Repair, status = Valid\<rparr>],
         world = w2\<rparr>"
  shows "P (repair_round env req facts pre first why w)"
proof -
  obtain r w1 where rw: "repair env req facts (sql_text first) why w = (r, w1)"
    by (cases "repair env req facts (sql_text first) why w")
  show ?thesis
  proof (cases r)
    case None
    with none [of w1] rw show ?thesis by (simp add: repair_round_def)
  next
    case (Some s2)
    note rs = rw [unfolded Some]
    show ?thesis
    proof (cases "gate env facts s2 = Valid")
      case False
      from rejected [OF rs refl False] rs False show ?thesis
        by (cases "gate env facts s2") (simp_all add: repair_round_def)
    next
      case True
      obtain x w2 where ex: "execute env s2 w1 = (x, w2)"
        by (cases "execute env s2 w1")
      show ?thesis
      proof (cases x)
        case (Inl e)
        from failed [OF rs True ex [unfolded Inl]] rs True ex Inl show ?thesis
          by (simp add: repair_round_def)
      next
        case (Inr rows)
        from repaired [OF rs True ex [unfolded Inr]] rs True ex Inr show ?thesis
          by (simp add: repair_round_def)
      qed
    qed
  qed
qed

lemma generation_path_rule:
  assumes no_facts: "\<And>w1. retrieve env (question req) w = (None, w1) \<Longrightarrow>
      P \<lparr>result = Failure RetrievalError user_failure, trace = pre @ [RETRIEVE, DONE],
         candidates = [], world = w1\<rparr>"
    and no_sql: "\<And>facts w1 w2. retrieve env (question req) w = (Some facts, w1) \<Longrightarrow>
      generate env req facts w1 = (None, w2) \<Longrightarrow>
      P \<lparr>result = Failure GenerationError user_failure, trace = pre @ [RETRIEVE, GENERATE, DONE],
         candidates = [], world = w2\<rparr>"
    and ask: "\<And>facts w1 s w2 asked w3. retrieve env (question req) w = (Some facts, w1) \<Longrightarrow>
      generate env req facts w1 = (Some s, w2) \<Longrightarrow> clarify env req facts w2 = (asked, w3) \<Longrightarrow>
      fst asked \<noteq> [] \<Longrightarrow> \<not> skip_followups req \<Longrightarrow> followup_answers req = None \<Longrightarrow>
      P \<lparr>result = NeedsClarification (fst asked) (snd asked),
         trace = pre @ [RETRIEVE, GENERATE, CLARIFY_CHECK, ASK_CLARIFY, DONE],
         candidates = [\<lparr>sql_text = s, produced_by = Generation, status = Unchecked\<rparr>],
         world = w3\<rparr>"
    and executed: "\<And>facts w1 s w2 asked w3 rows w4.
      retrieve env (question req) w = (Some facts, w1) \<Longrightarrow>
      generate env req facts w1 = (Some s, w2) \<Longrightarrow> clarify env req facts w2 = (asked, w3) \<Longrightarrow>
      \<not> (fst asked \<noteq> [] \<and> \<not> skip_followups req \<and> followup_answers req = None) \<Longrightarrow>
      gate env facts s = Valid \<Longrightarrow> execute env s w3 = (Inr rows, w4) \<Longrightarrow>
      P \<lparr>result = GeneratedResult s rows Generation,
         trace = pre @ [RETRIEVE, GENERATE, CLARIFY_CHECK, SAFETY_GATE, EXECUTE, DONE],
         candidates = [\<lparr>sql_text = s, produced_by = Generation, status = Valid\<rparr>],
         world = w4\<rparr>"
    and exec_failed: "\<And>facts w1 s w2 asked w3 e w4.
      retrieve env (question req) w = (Some facts, w1) \<Longrightarrow>
      generate env req facts w1 = (Some s, w2) \<Longrightarrow> clarify env req facts w2 = (asked, w3) \<Longrightarrow>
      \<not> (fst asked \<noteq> [] \<and> \<not> skip_followups req \<and> followup_answers req = None) \<Longrightarrow>
      gate env facts s = Valid \<Longrightarrow> execute env s w3 = (Inl e, w4) \<Longrightarrow>
      P (repair_round env req facts (pre @ [RETRIEVE, GENERATE, CLARIFY_CHECK, SAFETY_GATE, EXECUTE])
           \<lparr>sql_text = s, produced_by = Generation, status = Valid\<rparr> ExecutionError w4)"
    and gate_rejected: "\<And>facts w1 s w2 asked w3 why.
      retrieve env (question req) w = (Some facts, w1) \<Longrightarrow>
      generate env req facts w1 = (Some s, w2) \<Longrightarrow> clarify env req facts w2 = (asked, w3) \<Longrightarrow>
      \<not> (fst asked \<noteq> [] \<and> \<not> skip_followups req \<and> followup_answers req = None) \<Longrightarrow>
      gate env facts s = Rejected why \<Longrightarrow>
      P (repair_round env req facts (pre @ [RETRIEVE, GENERATE, CLARIFY_CHECK, SAFETY_GATE])
           \<lparr>sql_text = s, produced_by = Generation, status = Rejected why\<rparr> why w3)"
  shows "P (generation_path env req pre w)"
proof -
  obtain f w1 where rt: "retrieve env (question req) w = (f, w1)"
    by (cases "retrieve env (question req) w")
  show ?thesis
  proof (cases f)
    case None
    with no_facts [of w1] rt show ?thesis by (simp add: generation_path_def)
  next
    case (Some facts)
    note rf = rt [unfolded Some]
    obtain g w2 where gn: "generate env req facts w1 = (g, w2)"
      by (cases "generate env req facts w1")
    show ?thesis
    proof (cases g)
      case None
      from no_sql [OF rf gn [unfolded None]] rf gn None show ?thesis
        by (simp add: generation_path_def)
    next
      case (Some s)
      note gs = gn [unfolded Some]
      obtain asked w3 where cl: "clarify env req facts w2 = (asked, w3)"
        by (cases "clarify env req facts w2")
      show ?thesis
      proof (cases "fst asked \<noteq> [] \<and> \<not> skip_followups req \<and> followup_answers req = None")
        case True
        with ask [OF rf gs cl] rf gs cl show ?thesis by (simp add: generation_path_def)
      next
        case False
        have never: "gate env facts s \<noteq> Unchecked"
          by (simp add: gate_def safety_gate_def)
        show ?thesis
        proof (cases "gate env facts s")
          case Unchecked
          with never show ?thesis by simp
        next
          case Valid
          obtain x w4 where ex: "execute env s w3 = (x, w4)"
            by (cases "execute env s w3")
          show ?thesis
          proof (cases x)
            case (Inl e)
            from exec_failed [OF rf gs cl False Valid ex [unfolded Inl]] rf gs cl False Valid ex Inl
            show ?thesis by (auto simp add: generation_path_def)
          next
            case (Inr rows)
            from executed [OF rf gs cl False Valid ex [unfolded Inr]] rf gs cl False Valid ex Inr
            show ?thesis by (auto simp add: generation_path_def)
          qed
        next
          case (Rejected why)
          from gate_rejected [OF rf gs cl False Rejected] rf gs cl False Rejected show ?thesis
            by (auto simp add: generation_path_def)
        qed
      qed
    qed
  qed
qed

lemma orchestrate_rule:
  assumes conversational: "\<And>answer w1. mode req = Conversation \<Longrightarrow>
      respond env req w = (answer, w1) \<Longrightarrow>
      P \<lparr>result = Conversational answer,
         trace = [START, MODE_CHECK, CONVERSATIONAL, DONE], candidates = [], world = w1\<rparr>"
    and saved: "\<And>r rows w1. mode req = Report \<Longrightarrow>
      match_saved (score_of env) (least_score env) (catalog env) (question req) (query_key req) = Some r \<Longrightarrow>
      execute env (sql r) w = (Inr rows, w1) \<Longrightarrow>
      P \<lparr>result = SavedQueryResult (sql r) rows,
         trace = [START, MODE_CHECK, MATCH_SAVED, EXECUTE_SAVED, DONE],
         candidates = [\<lparr>sql_text = sql r, produced_by = Saved, status = Valid\<rparr>], world = w1\<rparr>"
    and saved_failed: "\<And>r e w1. mode req = Report \<Longrightarrow>
      match_saved (score_of env) (least_score env) (catalog env) (question req) (query_key req) = Some r \<Longrightarrow>
      execute env (sql r) w = (Inl e, w1) \<Longrightarrow>
      P \<lparr>result = Failure ExecutionError user_failure,
         trace = [START, MODE_CHECK, MATCH_SAVED, EXECUTE_SAVED, DONE],
         candidates = [\<lparr>sql_text = sql r, produced_by = Saved, status = Valid\<rparr>], world = w1\<rparr>"
    and generated: "mode req = Report \<Longrightarrow>
      match_saved (score_of env) (least_score env) (catalog env) (question req) (query_key req) = None \<Longrightarrow>
      P (generation_path env req [START, MODE_CHECK, MATCH_SAVED] w)"
  shows "P (orchestrate env req w)"
proof (cases "mode req")
  case Conversation
  obtain answer w1 where rs: "respond env req w = (answer, w1)"
    by (cases "respond env req w")
  from conversational [OF Conversation rs] Conversation rs show ?thesis
    by (simp add: orchestrate_def)
next
  case Report
  show ?thesis
  proof (cases "match_saved (score_of env) (least_score env) (catalog env) (question req) (query_key req)")
    case None
    from generated [OF Report None] Report None show ?thesis by (simp add: orchestrate_def)
  next
    case (Some r)
    obtain x w1 where ex: "execute env (sql r) w = (x, w1)"
      by (cases "execute env (sql r) w")
    show ?thesis
    proof (cases x)
      case (Inl e)
      from saved_failed [OF Report Some ex [unfolded Inl]] Report Some ex Inl show ?thesis
        by (simp add: orchestrate_def)
    next
      case (Inr rows)
      from saved [OF Report Some ex [unfolded Inr]] Report Some ex Inr show ?thesis
        by (simp add: orchestrate_def)
    qed
  qed
qed


lemma logged_calls:
  "respond (logged env) r (w, l) = (fst (respond env r w), (snd (respond env r w), l @ [Responded]))"
  "retrieve (logged env) q (w, l) = (fst (retrieve env q w), (snd (retrieve env q w), l @ [Retrieved]))"
  "generate (logged env) r f (w, l) = (fst (generate env r f w), (snd (generate env r f w), l @ [Generated]))"
  "clarify (logged env) r f (w, l) = (fst (clarify env r f w), (snd (clarify env r f w), l @ [Clarified]))"
  "execute (logged env) s (w, l) = (fst (execute env s w), (snd (execute env s w), l @ [Executed s]))"
  "repair (logged env) r f s k (w, l) = (fst (repair env r f s k w), (snd (repair env r f s k w), l @ [Repaired s]))"
  by (simp_all add: logged_def noting_def)







lemma skip_no_clarification:
  assumes "skip_followups req"
  shows "\<not> is_NeedsClarification (result (orchestrate env req w))"
  by (rule orchestrate_rule [where P = "\<lambda>out. \<not> is_NeedsClarification (result out)"];
      (rule generation_path_rule)?; (rule repair_round_rule)?; simp add: assms)

lemma conversation_calls:
  assumes "mode req = Conversation"
  shows "calls env req w = [Responded]"
  using assms by (simp add: calls_def orchestrate_def logged_calls split: prod.splits)

lemma clarification_asked:
  "is_NeedsClarification (result (orchestrate env req w)) \<longrightarrow>
     mode req = Report \<and> \<not> skip_followups req \<and> followup_answers req = None"
  by (rule orchestrate_rule [where P = "\<lambda>out. is_NeedsClarification (result out) \<longrightarrow>
        mode req = Report \<and> \<not> skip_followups req \<and> followup_answers req = None"];
      (rule generation_path_rule)?; (rule repair_round_rule)?; simp)



text \<open>
  C3: a request in conversation mode creates no SQL Candidate and enters none of the
  states of the SQL paths (saved-query matching and execution, retrieval, generation,
  clarification, Safety Gate, execution, repair), whatever the question says; the run
  is START, MODE_CHECK, CONVERSATIONAL, DONE and returns the responder's answer, and the
  only collaborator invoked is the responder.
\<close>

theorem orchestrate_conversation_no_sql:
  assumes "mode req = Conversation"
  shows "candidates (orchestrate env req w) = []
     \<and> set (trace (orchestrate env req w)) \<inter> sql_states = {}
     \<and> trace (orchestrate env req w) = [START, MODE_CHECK, CONVERSATIONAL, DONE]
     \<and> result (orchestrate env req w) = Conversational (fst (respond env req w))
     \<and> calls env req w = [Responded]"
  using assms conversation_calls [OF assms, of env w]
  by (simp add: orchestrate_def sql_states_def split: prod.splits)

theorem orchestrate_conversation_no_sql_witness:
  "candidates (orchestrate failing_env
      (report_request\<lparr>mode := Conversation, question := ''DROP TABLE SUPER_LOAN_DIM''\<rparr>) 0) = []
   \<and> trace (orchestrate failing_env
      (report_request\<lparr>mode := Conversation, question := ''DROP TABLE SUPER_LOAN_DIM''\<rparr>) 0) =
       [START, MODE_CHECK, CONVERSATIONAL, DONE]
   \<and> calls failing_env
       (report_request\<lparr>mode := Conversation, question := ''DROP TABLE SUPER_LOAN_DIM''\<rparr>) 0 =
       [Responded]"
  using orchestrate_conversation_no_sql
    [of "report_request\<lparr>mode := Conversation, question := ''DROP TABLE SUPER_LOAN_DIM''\<rparr>"
        failing_env 0]
  by simp




text \<open>
  The replay: how the first request and the request that \<open>handleFollowupConfirm\<close> sends
  after it are read by the backend.
\<close>

lemma first_run:
  "result (orchestrate clarifying_env report_request 0) =
     NeedsClarification [date_item] ''Two date columns match.''"
  by code_simp

lemma replay_run:
  "result (orchestrate clarifying_env
      (report_request\<lparr>followup_answers := Some [(''date_column'', ''Open date'')],
                      skip_followups := True\<rparr>) 0) =
     GeneratedResult ''SELECT COUNT(*) FROM GOLD_COLLATERAL_DIM'' [[(''COUNT'', ''42'')]] Generation"
  by code_simp

lemma send_body_get:
  "js_get (handleSend_body st q qk) ''question'' =
     js_or (js_default JNull q) (JStr (js_trim (input st)))"
  "js_get (handleSend_body st q qk) ''skip_followups'' = JBool False"
  "js_get (handleSend_body st q qk) ''followup_answers'' = JNull"
  "js_get (handleSend_body st q qk) ''mode'' = JStr ''report''"
  "js_get (handleSend_body st q qk) ''previous_sql_query'' =
     js_or (js_default JNull (lastSqlQuery st)) JNull"
  by (simp_all add: handleSend_body_def sendQuery_body_def js_get_def js_default_def js_or_def)

lemma confirm_body_rest:
  "js_get (handleFollowupConfirm_body st i answers) ''previous_sql_query'' =
     js_or (js_default JNull (lastSqlQuery st)) JNull"
  "js_get (handleFollowupConfirm_body st i answers) ''query_key'' = JNull"
  by (simp_all add: handleFollowupConfirm_body_def sendQuery_body_def js_get_def js_default_def)

lemma followup_keeps_sql:
  assumes "post ''/chat/query'' (handleSend_body st q qk) = Inr (JObj resp)"
    "truthy (js_get resp ''needs_followup'')" "isArray (js_get resp ''followup_questions'')"
  shows "lastSqlQuery (handleSend post st q qk) = lastSqlQuery st"
  using assms
  by (simp add: handleSend_def Let_def sendQuery_def handleSend_body_def finally_state_def)

lemma replay_request:
  assumes sent: "request_of who (handleSend_body st q qk) = Some req"
    and ne: "question req \<noteq> []"
    and resp: "post ''/chat/query'' (handleSend_body st q qk) = Inr (JObj resp)"
    and ask: "truthy (js_get resp ''needs_followup'')" "isArray (js_get resp ''followup_questions'')"
  shows "request_of who
           (handleFollowupConfirm_body (handleSend post st q qk) (Suc (length (messages st))) answers) =
         Some (req\<lparr>query_key := None, followup_answers := Some answers, skip_followups := True\<rparr>)"
proof -
  from sent obtain x where
    x: "js_get (handleSend_body st q qk) ''question'' = JStr x"
    by (auto simp: request_of_def split: jsval.splits)
  from sent x have req: "req =
      \<lparr>question = x, caller = who, mode = Report,
       previous_sql_query = text_of (js_or (js_default JNull (lastSqlQuery st)) JNull),
       query_key = text_of (js_get (handleSend_body st q qk) ''query_key''),
       followup_answers = None, skip_followups = False\<rparr>"
    by (simp add: request_of_def send_body_get(2-5) answers_of_def)
  from ne req have "x \<noteq> []"
    by simp
  with x have tq: "truthy (js_get (handleSend_body st q qk) ''question'')"
    by simp
  from send_then_confirm [where post = post and answers = answers, OF tq resp ask] x
  have q': "js_get (handleFollowupConfirm_body (handleSend post st q qk) (Suc (length (messages st)))
                answers) ''question'' = JStr x"
    by simp
  note l = followup_keeps_sql [where post = post, OF resp ask]
  show ?thesis
    by (simp add: request_of_def q' confirm_body_get(2-4) confirm_body_rest l answers_roundtrip req
        text_of_def)
qed

lemma first_request:
  "request_of ''analyst''
     (handleSend_body (example_state\<lparr>lastSqlQuery := JNull\<rparr>)
        (JStr ''How many gold loan accounts are there?'') JNull) = Some report_request"
  by (simp add: request_of_def send_body_get handleSend_body_def sendQuery_body_def js_get_def
      js_default_def js_or_def report_request_def text_of_def answers_of_def example_state_def)

text \<open>
  C4: when a run returns NeedsClarification, the request asked for follow-ups and
  carried no answers, and a replay with \<open>skip_followups\<close> set does not return
  NeedsClarification: not the same request with only that flag set and still no
  answers, nor any other request with the flag set, whatever the collaborators answer
  this time. The client's replay is such a request. After \<open>handleSend\<close> sent the
  question and received a response that asks for follow-ups, the follow-up message is
  the second message it appended, and the body that \<open>handleFollowupConfirm\<close> sends for
  that message reads as the first request with \<open>skip_followups\<close> set, the answers
  filled in and no saved-query key: the question is the same. That body is the only
  thing the handler sends: its effect depends on the transport through the response to
  this one request.
\<close>

theorem replay_never_asks_again:
  assumes first: "is_NeedsClarification (result (orchestrate env req w))"
  shows "\<not> skip_followups req \<and> followup_answers req = None
     \<and> \<not> is_NeedsClarification (result (orchestrate env' (req\<lparr>skip_followups := True\<rparr>) w'))
     \<and> (skip_followups r \<longrightarrow> \<not> is_NeedsClarification (result (orchestrate env' r w')))
     \<and> (request_of who (handleSend_body st q qk) = Some req \<and> question req \<noteq> []
          \<and> post ''/chat/query'' (handleSend_body st q qk) = Inr (JObj resp)
          \<and> truthy (js_get resp ''needs_followup'') \<and> isArray (js_get resp ''followup_questions'') \<longrightarrow>
        request_of who
          (handleFollowupConfirm_body (handleSend post st q qk) (Suc (length (messages st))) answers) =
          Some (req\<lparr>query_key := None, followup_answers := Some answers, skip_followups := True\<rparr>)
        \<and> \<not> is_NeedsClarification
             (result (orchestrate env'
                (req\<lparr>query_key := None, followup_answers := Some answers, skip_followups := True\<rparr>) w')))
     \<and> (post' ''/chat/query'' (handleFollowupConfirm_body st' i answers) =
          post ''/chat/query'' (handleFollowupConfirm_body st' i answers) \<longrightarrow>
        handleFollowupConfirm post' st' i answers = handleFollowupConfirm post st' i answers)"
proof -
  from first clarification_asked [of env req w]
  have a: "\<not> skip_followups req \<and> followup_answers req = None"
    by simp
  have b: "\<not> is_NeedsClarification (result (orchestrate env' (req\<lparr>skip_followups := True\<rparr>) w'))"
    by (rule skip_no_clarification) simp
  have c: "skip_followups r \<longrightarrow> \<not> is_NeedsClarification (result (orchestrate env' r w'))"
    using skip_no_clarification [of r env' w'] by simp
  have d: "\<not> is_NeedsClarification
             (result (orchestrate env'
                (req\<lparr>query_key := None, followup_answers := Some answers, skip_followups := True\<rparr>) w'))"
    by (rule skip_no_clarification) simp
  have e: "request_of who
          (handleFollowupConfirm_body (handleSend post st q qk) (Suc (length (messages st))) answers) =
          Some (req\<lparr>query_key := None, followup_answers := Some answers, skip_followups := True\<rparr>)"
    if "request_of who (handleSend_body st q qk) = Some req" "question req \<noteq> []"
      "post ''/chat/query'' (handleSend_body st q qk) = Inr (JObj resp)"
      "truthy (js_get resp ''needs_followup'')" "isArray (js_get resp ''followup_questions'')"
    using that by (rule replay_request)
  have f: "handleFollowupConfirm post' st' i answers = handleFollowupConfirm post st' i answers"
    if "post' ''/chat/query'' (handleFollowupConfirm_body st' i answers) =
          post ''/chat/query'' (handleFollowupConfirm_body st' i answers)"
    using that by (rule confirm_single_request)
  from a b c d e f show ?thesis
    by blast
qed

theorem replay_never_asks_again_witness:
  "result (orchestrate clarifying_env report_request 0) =
     NeedsClarification [date_item] ''Two date columns match.''
   \<and> request_of ''analyst''
       (handleFollowupConfirm_body
          (handleSend (\<lambda>path body. Inr (JObj followup_response))
             (example_state\<lparr>lastSqlQuery := JNull\<rparr>)
             (JStr ''How many gold loan accounts are there?'') JNull)
          1 [(''date_column'', ''Open date'')]) =
       Some (report_request\<lparr>followup_answers := Some [(''date_column'', ''Open date'')],
                            skip_followups := True\<rparr>)
   \<and> \<not> is_NeedsClarification
        (result (orchestrate clarifying_env
           (report_request\<lparr>followup_answers := Some [(''date_column'', ''Open date'')],
                           skip_followups := True\<rparr>) 0))
   \<and> \<not> is_NeedsClarification
        (result (orchestrate clarifying_env (report_request\<lparr>skip_followups := True\<rparr>) 0))"
proof -
  have first: "is_NeedsClarification (result (orchestrate clarifying_env report_request 0))"
    by (simp add: first_run)
  have ne: "question report_request \<noteq> []"
    by (simp add: report_request_def)
  have ask: "truthy (js_get followup_response ''needs_followup'')"
    "isArray (js_get followup_response ''followup_questions'')"
    by (simp_all add: followup_response_def js_get_def isArray_def)
  have len: "Suc (length (messages (example_state\<lparr>lastSqlQuery := JNull\<rparr>))) = 1"
    by (simp add: example_state_def)
  have same: "report_request\<lparr>query_key := None,
        followup_answers := Some [(''date_column'', ''Open date'')], skip_followups := True\<rparr> =
      report_request\<lparr>followup_answers := Some [(''date_column'', ''Open date'')],
        skip_followups := True\<rparr>"
    by (simp add: report_request_def)
  from replay_never_asks_again [OF first,
      where env' = clarifying_env and w' = 0 and who = "''analyst''"
        and st = "example_state\<lparr>lastSqlQuery := JNull\<rparr>"
        and q = "JStr ''How many gold loan accounts are there?''" and qk = JNull
        and post = "\<lambda>path body. Inr (JObj followup_response)" and resp = followup_response
        and answers = "[(''date_column'', ''Open date'')]"]
    first_request ne ask
  show ?thesis
    unfolding len same by (simp add: first_run)
qed

end
